theory Spec2Isabelle
  imports Complex_Main "HOL-Library.Multiset"
begin

section \<open>JavaScript numbers\<close>

text \<open>
  The scanner computes with JavaScript numbers. They are modelled as the real numbers
  extended with the three special values of IEEE arithmetic: \<open>Infinity\<close>, \<open>-Infinity\<close>
  and \<open>NaN\<close>. Every operation follows the IEEE rules for the special values (a division
  by zero gives an infinity or \<open>NaN\<close>, every comparison with \<open>NaN\<close> is false, \<open>NaN\<close>
  is absorbing), so the guards of the source against non-finite values are branches of the
  model. On finite values the operations are the exact operations of the reals: rounding
  to 53 bits, overflow to an infinity and the sign of zero are not part of the model.
\<close>

datatype jsnum = Fin real | PInf | NInf | NaN

fun isFinite :: "jsnum \<Rightarrow> bool" where
  "isFinite (Fin a) = True"
| "isFinite PInf = False"
| "isFinite NInf = False"
| "isFinite NaN = False"

text \<open>The sign of a number that is not \<open>NaN\<close>, as a real: it decides the sign of an
  infinite product.\<close>

fun signum :: "jsnum \<Rightarrow> real" where
  "signum (Fin a) = sgn a"
| "signum PInf = 1"
| "signum NInf = - 1"
| "signum NaN = 0"

text \<open>A number read as a condition: \<open>0\<close> and \<open>NaN\<close> are false.\<close>

definition truthy :: "jsnum \<Rightarrow> bool" where
  "truthy x = (x \<noteq> Fin 0 \<and> x \<noteq> NaN)"

text \<open>\<open>x === y\<close> on numbers: \<open>NaN\<close> is equal to nothing, itself included.\<close>

definition strict_eq :: "jsnum \<Rightarrow> jsnum \<Rightarrow> bool" where
  "strict_eq x y = (x \<noteq> NaN \<and> x = y)"

instantiation jsnum :: "{plus, minus, uminus, times, inverse, ord}"
begin

fun plus_jsnum :: "jsnum \<Rightarrow> jsnum \<Rightarrow> jsnum" where
  "plus_jsnum (Fin a) (Fin b) = Fin (a + b)"
| "plus_jsnum NaN y = NaN"
| "plus_jsnum x NaN = NaN"
| "plus_jsnum PInf NInf = NaN"
| "plus_jsnum NInf PInf = NaN"
| "plus_jsnum PInf y = PInf"
| "plus_jsnum x PInf = PInf"
| "plus_jsnum NInf y = NInf"
| "plus_jsnum x NInf = NInf"

fun uminus_jsnum :: "jsnum \<Rightarrow> jsnum" where
  "uminus_jsnum (Fin a) = Fin (- a)"
| "uminus_jsnum PInf = NInf"
| "uminus_jsnum NInf = PInf"
| "uminus_jsnum NaN = NaN"

definition minus_jsnum :: "jsnum \<Rightarrow> jsnum \<Rightarrow> jsnum" where
  "minus_jsnum x y = x + (- y)"

fun times_jsnum :: "jsnum \<Rightarrow> jsnum \<Rightarrow> jsnum" where
  "times_jsnum (Fin a) (Fin b) = Fin (a * b)"
| "times_jsnum NaN y = NaN"
| "times_jsnum x NaN = NaN"
| "times_jsnum x y =
     (let s = signum x * signum y
      in if s = 0 then NaN else if 0 < s then PInf else NInf)"

fun divide_jsnum :: "jsnum \<Rightarrow> jsnum \<Rightarrow> jsnum" where
  "divide_jsnum NaN y = NaN"
| "divide_jsnum x NaN = NaN"
| "divide_jsnum (Fin a) (Fin b) =
     (if b \<noteq> 0 then Fin (a / b)
      else if a = 0 then NaN else if 0 < a then PInf else NInf)"
| "divide_jsnum (Fin a) y = Fin 0"
| "divide_jsnum x (Fin b) = (if 0 \<le> b then x else - x)"
| "divide_jsnum x y = NaN"

definition inverse_jsnum :: "jsnum \<Rightarrow> jsnum" where
  "inverse_jsnum x = divide (Fin 1) x"

fun less_jsnum :: "jsnum \<Rightarrow> jsnum \<Rightarrow> bool" where
  "less_jsnum (Fin a) (Fin b) = (a < b)"
| "less_jsnum NaN y = False"
| "less_jsnum x NaN = False"
| "less_jsnum x NInf = False"
| "less_jsnum PInf y = False"
| "less_jsnum NInf y = True"
| "less_jsnum (Fin a) PInf = True"

definition less_eq_jsnum :: "jsnum \<Rightarrow> jsnum \<Rightarrow> bool" where
  "less_eq_jsnum x y = (x < y \<or> strict_eq x y)"

instance ..

end

text \<open>The functions of \<open>Math\<close> that the scanner calls.\<close>

fun Math_abs :: "jsnum \<Rightarrow> jsnum" where
  "Math_abs (Fin a) = Fin \<bar>a\<bar>"
| "Math_abs PInf = PInf"
| "Math_abs NInf = PInf"
| "Math_abs NaN = NaN"

fun Math_sign :: "jsnum \<Rightarrow> jsnum" where
  "Math_sign (Fin a) = Fin (sgn a)"
| "Math_sign PInf = Fin 1"
| "Math_sign NInf = Fin (- 1)"
| "Math_sign NaN = NaN"

definition Math_min :: "jsnum \<Rightarrow> jsnum \<Rightarrow> jsnum" where
  "Math_min x y = (if x = NaN \<or> y = NaN then NaN else if x < y then x else y)"

definition Math_max :: "jsnum \<Rightarrow> jsnum \<Rightarrow> jsnum" where
  "Math_max x y = (if x = NaN \<or> y = NaN then NaN else if x < y then y else x)"

fun Math_sqrt :: "jsnum \<Rightarrow> jsnum" where
  "Math_sqrt (Fin a) = (if a < 0 then NaN else Fin (sqrt a))"
| "Math_sqrt PInf = PInf"
| "Math_sqrt NInf = NaN"
| "Math_sqrt NaN = NaN"

fun Math_log10 :: "jsnum \<Rightarrow> jsnum" where
  "Math_log10 (Fin a) = (if a < 0 then NaN else if a = 0 then NInf else Fin (log 10 a))"
| "Math_log10 PInf = PInf"
| "Math_log10 NInf = NaN"
| "Math_log10 NaN = NaN"

text \<open>The number of elements of an array, as a number.\<close>

definition len :: "'a list \<Rightarrow> jsnum" where
  "len xs = Fin (real (length xs))"

text \<open>
  Arrays are lists. Reading an array past its end gives \<open>undefined\<close>, which every
  arithmetic use turns into \<open>NaN\<close>; \<open>elemAt\<close> is the read of a number at an index and
  \<open>lastElem\<close> is \<open>xs[xs.length - 1]\<close>.
\<close>

definition elemAt :: "jsnum list \<Rightarrow> nat \<Rightarrow> jsnum" where
  "elemAt xs i = (if i < length xs then xs ! i else NaN)"

definition lastElem :: "jsnum list \<Rightarrow> jsnum" where
  "lastElem xs = (if xs = [] then NaN else last xs)"

text \<open>\<open>xs.slice(start, stop)\<close> and \<open>xs.slice(start)\<close>: a negative index counts from the
  end of the array, and both are clamped to the array.\<close>

definition rel_index :: "int \<Rightarrow> nat \<Rightarrow> nat" where
  "rel_index i n = (if i < 0 then nat (max (int n + i) 0) else min (nat i) n)"

definition slice :: "'a list \<Rightarrow> int \<Rightarrow> int \<Rightarrow> 'a list" where
  "slice xs start stop =
     (let s = rel_index start (length xs); e = rel_index stop (length xs)
      in take (e - s) (drop s xs))"

definition slice_from :: "'a list \<Rightarrow> int \<Rightarrow> 'a list" where
  "slice_from xs start = drop (rel_index start (length xs)) xs"

text \<open>
  \<open>xs.sort(cmp)\<close>. The sort of ECMAScript is stable, and for a comparator that is a
  consistent order its result is the one stable sorted arrangement of the array, which
  inserting the elements from the right computes: an element moves behind a later one
  only where the comparator is positive, and a zero or \<open>NaN\<close> keeps the two in place.
  (For a comparator that is not consistent the language leaves the order to the
  implementation; the model is then one of the permitted orders.)
\<close>

fun insert_sorted :: "('a \<Rightarrow> 'a \<Rightarrow> jsnum) \<Rightarrow> 'a \<Rightarrow> 'a list \<Rightarrow> 'a list" where
  "insert_sorted cmp x [] = [x]"
| "insert_sorted cmp x (y # ys) =
     (if cmp x y > Fin 0 then y # insert_sorted cmp x ys else x # y # ys)"

definition Array_sort :: "('a \<Rightarrow> 'a \<Rightarrow> jsnum) \<Rightarrow> 'a list \<Rightarrow> 'a list" where
  "Array_sort cmp xs = foldr (insert_sorted cmp) xs []"

text \<open>\<open>Number(x.toFixed(d))\<close>: \<open>toFixed\<close> prints the decimal with \<open>d\<close> digits nearest to
  \<open>x\<close>, the one of larger magnitude on a tie, and prints a number of magnitude \<open>10^21\<close>
  or more, an infinity and \<open>NaN\<close> as they are.\<close>

fun toFixed_number :: "nat \<Rightarrow> jsnum \<Rightarrow> jsnum" where
  "toFixed_number d (Fin a) =
     (if \<bar>a\<bar> \<ge> 10 ^ 21 then Fin a
      else Fin (sgn a * real_of_int \<lfloor>\<bar>a\<bar> * 10 ^ d + 1 / 2\<rfloor> / 10 ^ d))"
| "toFixed_number d PInf = PInf"
| "toFixed_number d NInf = NInf"
| "toFixed_number d NaN = NaN"

section \<open>The indicator library (lib/indicators.ts)\<close>

text \<open>A period is a count of bars, a natural number.\<close>

fun ema_loop :: "jsnum \<Rightarrow> jsnum \<Rightarrow> jsnum list \<Rightarrow> jsnum list" where
  "ema_loop k prevEma [] = []"
| "ema_loop k prevEma (current # rest) =
     (let prevEma' = current * k + prevEma * (Fin 1 - k)
      in prevEma' # ema_loop k prevEma' rest)"

definition ema :: "jsnum list \<Rightarrow> nat \<Rightarrow> jsnum list" where
  "ema values period =
     (case values of
        [] \<Rightarrow> []
      | v # rest \<Rightarrow> v # ema_loop (Fin 2 / (Fin (real period) + Fin 1)) v rest)"

text \<open>\<open>rsi\<close>: the two loops are folds over their index ranges, \<open>i = 1 .. period\<close> and
  \<open>i = period + 1 .. values.length - 1\<close>, on the pair of the two running values.\<close>

definition rsi_seed_step :: "jsnum list \<Rightarrow> nat \<Rightarrow> jsnum \<times> jsnum \<Rightarrow> jsnum \<times> jsnum" where
  "rsi_seed_step values i acc =
     (case acc of (gains, losses) \<Rightarrow>
        (let delta = elemAt values i - elemAt values (i - 1)
         in if delta \<ge> Fin 0 then (gains + delta, losses) else (gains, losses - delta)))"

definition rsi_smooth_step :: "jsnum list \<Rightarrow> nat \<Rightarrow> nat \<Rightarrow> jsnum \<times> jsnum \<Rightarrow> jsnum \<times> jsnum" where
  "rsi_smooth_step values period i acc =
     (case acc of (avgGain, avgLoss) \<Rightarrow>
        (let delta = elemAt values i - elemAt values (i - 1);
             p = Fin (real period)
         in if delta \<ge> Fin 0
            then ((avgGain * (p - Fin 1) + delta) / p, (avgLoss * (p - Fin 1)) / p)
            else ((avgGain * (p - Fin 1)) / p, (avgLoss * (p - Fin 1) - delta) / p)))"

definition rsi_averages :: "jsnum list \<Rightarrow> nat \<Rightarrow> jsnum \<times> jsnum" where
  "rsi_averages values period =
     (case fold (rsi_seed_step values) [1 ..< Suc period] (Fin 0, Fin 0) of
        (gains, losses) \<Rightarrow>
          fold (rsi_smooth_step values period) [Suc period ..< length values]
            (gains / Fin (real period), losses / Fin (real period)))"

definition rsi :: "jsnum list \<Rightarrow> nat \<Rightarrow> jsnum" where
  "rsi values period =
     (if length values \<le> period then Fin 50
      else case rsi_averages values period of
        (avgGain, avgLoss) \<Rightarrow>
          if strict_eq avgLoss (Fin 0) then Fin 80
          else let rs = avgGain / avgLoss in Fin 100 - Fin 100 / (Fin 1 + rs))"

record MacdResult =
  macd :: jsnum
  signal :: jsnum
  histogram :: jsnum

definition macd :: "jsnum list \<Rightarrow> nat \<Rightarrow> nat \<Rightarrow> nat \<Rightarrow> MacdResult" where
  "macd values fastPeriod slowPeriod signalPeriod =
     (if length values < slowPeriod + signalPeriod
      then \<lparr>MacdResult.macd = Fin 0, signal = Fin 0, histogram = Fin 0\<rparr>
      else
        let fastEma = ema values fastPeriod;
            slowEma = ema values slowPeriod;
            macdSeries = map (\<lambda>idx. elemAt fastEma idx - elemAt slowEma idx) [0 ..< length values];
            signalSeries = ema (slice_from macdSeries (int slowPeriod - 1)) signalPeriod;
            macdValue = lastElem macdSeries;
            signalValue = lastElem signalSeries
        in \<lparr>MacdResult.macd = macdValue, signal = signalValue,
            histogram = macdValue - signalValue\<rparr>)"

text \<open>\<open>values.reduce((acc, val) => acc + val, 0)\<close>; in \<open>standardDeviation\<close> the square
  \<open>(val - mean) ** 2\<close> is the product of the difference with itself.\<close>

definition sum_values :: "jsnum list \<Rightarrow> jsnum" where
  "sum_values values = fold (\<lambda>val acc. acc + val) values (Fin 0)"

definition standardDeviation :: "jsnum list \<Rightarrow> jsnum" where
  "standardDeviation values =
     (let mean = sum_values values / len values;
          variance =
            fold (\<lambda>val acc. acc + (val - mean) * (val - mean)) values (Fin 0) / len values
      in Math_sqrt variance)"

text \<open>\<open>returns\<close> is the array that the loop of \<open>volatilityPercent\<close> fills.\<close>

definition returns :: "jsnum list \<Rightarrow> jsnum list" where
  "returns closes =
     map (\<lambda>i. (elemAt closes i - elemAt closes (i - 1)) / elemAt closes (i - 1)) [1 ..< length closes]"

definition volatilityPercent :: "jsnum list \<Rightarrow> jsnum" where
  "volatilityPercent closes =
     (if length closes < 2 then Fin 0
      else standardDeviation (returns closes) * Math_sqrt (len (returns closes)) * Fin 100)"

definition volumeSpikeRatio :: "jsnum list \<Rightarrow> nat \<Rightarrow> jsnum" where
  "volumeSpikeRatio volumes lookback =
     (if length volumes = 0 then Fin 1
      else
        let slice' = slice_from volumes (- int lookback - 1)
        in if length slice' < 2 then Fin 1
           else
             let latest = lastElem slice';
                 rest = slice slice' 0 (- 1);
                 avg = sum_values rest / (if length rest = 0 then Fin 1 else len rest)
             in if strict_eq avg (Fin 0) then Fin 1 else latest / avg)"

section \<open>Classification and scoring (route.ts)\<close>

text \<open>The object that \<open>detectBreakout\<close> returns.\<close>

record Breakout =
  nearHigh :: jsnum
  nearLow :: jsnum
  isBreakout :: bool
  isBreakdown :: bool

datatype MovementStatus = MovingNow | AboutToMove | LikelyIn24H

datatype Direction = Long | Short

text \<open>The \<open>metadata\<close> object of an evaluation.\<close>

record Metadata =
  rsi1h :: jsnum
  rsi4h :: jsnum
  macd1h :: jsnum
  macdHistogram1h :: jsnum
  macd4h :: jsnum
  macdHistogram4h :: jsnum
  emaTrend1h :: jsnum
  emaTrend4h :: jsnum
  volumeSpikeRatio' :: jsnum
  openInterestDeltaPct :: jsnum
  fundingRatePct :: jsnum
  volatilityPct :: jsnum
  priceChange24h :: jsnum

text \<open>The parameter object of \<open>determineMovementStatus\<close>; \<open>buildCompositeScore\<close> takes
  the same fields and the funding rate.\<close>

record MovementParams =
  priceChange :: jsnum
  volSpike1h :: jsnum
  volSpike15m :: jsnum
  emaTrend1h :: jsnum
  emaTrend4h :: jsnum
  rsi1h :: jsnum
  rsi4h :: jsnum
  macdHist1h :: jsnum
  macdHist4h :: jsnum
  breakout :: Breakout
  longerBreakout :: Breakout
  oiChangePct :: jsnum
  volatility :: jsnum

record ScoreParams = MovementParams +
  fundingRatePct :: jsnum

definition strongMomentum :: "'a MovementParams_scheme \<Rightarrow> bool" where
  "strongMomentum params =
     (volSpike1h params > Fin 1.6 \<and>
      volSpike15m params > Fin 1.4 \<and>
      Math_abs (priceChange params) > Fin 1 \<and>
      strict_eq (Math_sign (macdHist1h params)) (Math_sign (macdHist4h params)) \<and>
      Math_abs (emaTrend1h params) > Fin 0.01 \<and>
      Math_abs (emaTrend4h params) > Fin 0.01 \<and>
      Math_abs (oiChangePct params) > Fin 0.5)"

definition alignedMomentum :: "'a MovementParams_scheme \<Rightarrow> bool" where
  "alignedMomentum params =
     ((volSpike1h params > Fin 1.3 \<and> Math_abs (emaTrend1h params) > Fin 0.006 \<and>
       Math_abs (macdHist1h params) > Fin 0.0005) \<or>
      (volSpike15m params > Fin 1.2 \<and> Math_abs (oiChangePct params) > Fin 0.3))"

definition determineMovementStatus :: "'a MovementParams_scheme \<Rightarrow> MovementStatus" where
  "determineMovementStatus params =
     (if strongMomentum params \<or>
         (isBreakout (breakout params) \<and> isBreakout (longerBreakout params) \<and>
          volatility params > Fin 2.5)
      then MovingNow
      else if alignedMomentum params \<and>
         strict_eq (Math_sign (emaTrend1h params)) (Math_sign (emaTrend4h params)) \<and>
         strict_eq (Math_sign (macdHist1h params)) (Math_sign (macdHist4h params)) \<and>
         ((rsi1h params > Fin 52 \<and> rsi4h params > Fin 50) \<or>
          (rsi1h params < Fin 48 \<and> rsi4h params < Fin 50))
      then AboutToMove
      else LikelyIn24H)"

text \<open>\<open>buildCompositeScore\<close>: \<open>composite\<close> is the local of that name, the sum before
  the finiteness guard of the last line.\<close>

definition trendAlignment :: "ScoreParams \<Rightarrow> jsnum" where
  "trendAlignment params =
     (if strict_eq (Math_sign (emaTrend1h params)) (Math_sign (emaTrend4h params))
      then Fin 1 else Fin 0)"

definition macdAlignment :: "ScoreParams \<Rightarrow> jsnum" where
  "macdAlignment params =
     (if strict_eq (Math_sign (macdHist1h params)) (Math_sign (macdHist4h params))
      then Fin 1 else Fin 0)"

definition rsiAlignment :: "ScoreParams \<Rightarrow> jsnum" where
  "rsiAlignment params =
     (if (rsi1h params > Fin 55 \<and> rsi4h params > Fin 52) \<or>
         (rsi1h params < Fin 45 \<and> rsi4h params < Fin 48)
      then Fin 1 else Fin 0)"

definition composite :: "ScoreParams \<Rightarrow> jsnum" where
  "composite params =
     (let breakFactor =
            (if isBreakout (breakout params) then Fin 1 else Fin 0) +
            (if isBreakout (longerBreakout params) then Fin 0.8 else Fin 0);
          volScore =
            Math_min (volSpike1h params * Fin 15) (Fin 18) +
            Math_min (volSpike15m params * Fin 12) (Fin 15);
          trendScore =
            Math_min (Math_abs (emaTrend1h params) * Fin 110) (Fin 18) +
            Math_min (Math_abs (emaTrend4h params) * Fin 90) (Fin 16);
          macdScore =
            Math_min (Math_abs (macdHist1h params) * Fin 70000) (Fin 12) +
            Math_min (Math_abs (macdHist4h params) * Fin 40000) (Fin 10);
          rsiScore = (if truthy (rsiAlignment params) then Fin 10 else Fin 4);
          oiScore = Math_min (Math_abs (oiChangePct params) * Fin 4) (Fin 12);
          fundingPenalty =
            Math_max (Math_abs (fundingRatePct params) - Fin 0.03) (Fin 0) * Fin 120;
          volatilityScore = Math_min (volatility params * Fin 4) (Fin 15);
          base = volScore + trendScore + macdScore + rsiScore + oiScore + volatilityScore;
          alignmentBonus =
            (trendAlignment params + macdAlignment params + rsiAlignment params) * Fin 6;
          breakoutBonus = breakFactor * Fin 8
      in base + alignmentBonus + breakoutBonus - fundingPenalty)"

definition buildCompositeScore :: "ScoreParams \<Rightarrow> jsnum" where
  "buildCompositeScore params =
     (if isFinite (composite params) then composite params else Fin 0)"

text \<open>The direction and the stop multiplier are two conditional expressions in the body
  of \<open>evaluateSymbol\<close> (\<open>const direction = ...\<close>, \<open>const stopMultiplier = ...\<close>);
  \<open>direction_of\<close> is the first of them, as a function of the three values it reads.\<close>

definition direction_of :: "jsnum \<Rightarrow> jsnum \<Rightarrow> jsnum \<Rightarrow> Direction" where
  "direction_of emaTrend1h' emaTrend4h' rsi1h' =
     (if emaTrend1h' \<ge> Fin 0 \<and> emaTrend4h' \<ge> Fin 0 \<and> rsi1h' \<ge> Fin 48 then Long
      else if emaTrend1h' \<le> Fin 0 \<and> emaTrend4h' \<le> Fin 0 \<and> rsi1h' \<le> Fin 52 then Short
      else if emaTrend1h' \<ge> emaTrend4h' then Long
      else Short)"

definition stopMultiplier :: "Direction \<Rightarrow> jsnum \<Rightarrow> jsnum" where
  "stopMultiplier dir volatility' =
     (if dir = Long
      then Math_max (Fin 0.986) (Fin 1 - Math_max (volatility' / Fin 150) (Fin 0.012))
      else Math_min (Fin 1.014) (Fin 1 + Math_max (volatility' / Fin 150) (Fin 0.012)))"

section \<open>Market data (lib/binance.ts)\<close>

text \<open>
  The exchange is outside the program. A request either fails (no connection, a status
  that is not ok, a body that is no JSON: \<open>fetchJson\<close> throws, the promise is rejected)
  or delivers a body. \<open>Market\<close> holds what each endpoint answers during one scan. A body
  that decodes can still be malformed, in two ways that the model has: it can be the JSON
  value \<open>null\<close> (\<open>None\<close>) where the program expects an array or an object, and a
  number of the payload can be a string that is no number. The payloads carry their
  numbers as decimal strings, which the program reads with \<open>Number(...)\<close>; a field of the
  model holds the number so read (\<open>NaN\<close> for a string that is no number and for a
  field that is missing). Of the twelve positions of a candle the program reads
  \<open>k[2]\<close> (high), \<open>k[3]\<close> (low), \<open>k[4]\<close> (close) and \<open>k[5]\<close> (volume).
  Reading a property of \<open>null\<close> or iterating over it throws a \<open>TypeError\<close>.
\<close>

datatype error = Error string

definition TypeError :: error where
  "TypeError = Error ''TypeError''"

record FuturesSymbol =
  symbol :: string
  contractType :: string
  status :: string
  quoteAsset :: string
  baseAsset :: string

record Ticker24h =
  symbol :: string
  lastPrice :: jsnum
  priceChangePercent :: jsnum
  volume :: jsnum
  quoteVolume :: jsnum
  count :: "jsnum option"
  highPrice :: jsnum
  lowPrice :: jsnum
  weightedAvgPrice :: jsnum

record PremiumIndex =
  symbol :: string
  markPrice :: jsnum
  indexPrice :: jsnum
  estimatedSettlePrice :: jsnum
  lastFundingRate :: jsnum
  nextFundingTime :: jsnum
  interestRate :: jsnum
  time :: jsnum

record OpenInterestPoint =
  symbol :: string
  sumOpenInterest :: jsnum
  sumOpenInterestValue :: jsnum
  timestamp :: jsnum

record Kline =
  k2 :: jsnum
  k3 :: jsnum
  k4 :: jsnum
  k5 :: jsnum

record Market =
  exchangeInfo :: "error + FuturesSymbol list option"
  ticker24hr :: "error + Ticker24h list option"
  klines :: "string \<Rightarrow> string \<Rightarrow> nat \<Rightarrow> error + Kline list option"
  premiumIndex :: "string \<Rightarrow> error + PremiumIndex option"
  openInterestHist ::
    "string \<Rightarrow> string \<Rightarrow> nat \<Rightarrow> error + OpenInterestPoint list option"

text \<open>\<open>fetchPerpetualSymbols\<close> filters \<open>data.symbols\<close> inside the function, so a body
  without the array makes it throw; the other four functions hand the body on as it is.\<close>

definition fetchPerpetualSymbols :: "Market \<Rightarrow> error + FuturesSymbol list" where
  "fetchPerpetualSymbols market =
     (case exchangeInfo market of
        Inl e \<Rightarrow> Inl e
      | Inr None \<Rightarrow> Inl TypeError
      | Inr (Some symbols) \<Rightarrow>
          Inr (filter (\<lambda>s. contractType s = ''PERPETUAL'' \<and> status s = ''TRADING'' \<and>
                 quoteAsset s = ''USDT'') symbols))"

definition fetchTickers :: "Market \<Rightarrow> error + Ticker24h list option" where
  "fetchTickers market = ticker24hr market"

definition fetchKlines ::
  "Market \<Rightarrow> string \<Rightarrow> string \<Rightarrow> nat \<Rightarrow> error + Kline list option" where
  "fetchKlines market symbolName interval limit = klines market symbolName interval limit"

definition fetchPremiumIndex :: "Market \<Rightarrow> string \<Rightarrow> error + PremiumIndex option" where
  "fetchPremiumIndex market symbolName = premiumIndex market symbolName"

definition fetchOpenInterestHist ::
  "Market \<Rightarrow> string \<Rightarrow> string \<Rightarrow> nat \<Rightarrow> error + OpenInterestPoint list option" where
  "fetchOpenInterestHist market symbolName period limit =
     openInterestHist market symbolName period limit"

record ParsedKlines =
  closes :: "jsnum list"
  highs :: "jsnum list"
  lows :: "jsnum list"
  volumes :: "jsnum list"

definition parseKlines :: "Kline list \<Rightarrow> ParsedKlines" where
  "parseKlines ks =
     \<lparr>closes = map k4 ks, highs = map k2 ks, lows = map k3 ks, volumes = map k5 ks\<rparr>"

section \<open>The scan (app/api/scan/route.ts)\<close>

record BaseTickerSnapshot =
  symbol :: string
  lastPrice :: jsnum
  priceChangePercent :: jsnum
  quoteVolume :: jsnum
  volume :: jsnum
  tradeCount :: jsnum
  highPrice :: jsnum
  lowPrice :: jsnum
  weightedAvgPrice :: jsnum

datatype Confidence = Low | Medium | High

text \<open>
  An evaluation. The record of the source has eight more fields, the texts shown to the
  user (\<open>reason\<close>, \<open>trendStrength\<close>, \<open>volumeSpike\<close>, \<open>fundingRate\<close>,
  \<open>openInterestChange\<close>, \<open>volatility\<close>, \<open>breakoutSignal\<close>, \<open>whaleActivity\<close>); they are
  printed from the values below, nothing reads them back, and they are left out.
\<close>

record EvaluatedSymbol =
  symbol :: string
  movementStatus :: MovementStatus
  riskScore :: jsnum
  confidence :: Confidence
  direction :: Direction
  entry :: jsnum
  takeProfits :: "jsnum list"
  stopLoss :: jsnum
  safeLeverage :: string
  compositeScore :: jsnum
  metadata :: Metadata

definition MAX_DEEP_SYMBOLS :: nat where
  "MAX_DEEP_SYMBOLS = 25"

definition normalizeTicker :: "Ticker24h \<Rightarrow> BaseTickerSnapshot" where
  "normalizeTicker ticker =
     \<lparr>BaseTickerSnapshot.symbol = Ticker24h.symbol ticker,
      lastPrice = Ticker24h.lastPrice ticker,
      priceChangePercent = Ticker24h.priceChangePercent ticker,
      quoteVolume = Ticker24h.quoteVolume ticker,
      volume = Ticker24h.volume ticker,
      tradeCount = (case Ticker24h.count ticker of None \<Rightarrow> Fin 0 | Some c \<Rightarrow> c),
      highPrice = Ticker24h.highPrice ticker,
      lowPrice = Ticker24h.lowPrice ticker,
      weightedAvgPrice = Ticker24h.weightedAvgPrice ticker\<rparr>"

definition preScoreTicker :: "BaseTickerSnapshot \<Rightarrow> jsnum" where
  "preScoreTicker ticker =
     (let priceMoveScore = Math_min (Math_abs (priceChangePercent ticker) * Fin 1.2) (Fin 25);
          volumeScore = Math_min (Math_log10 (quoteVolume ticker + Fin 1) * Fin 12) (Fin 25);
          range =
            (if lowPrice ticker > Fin 0
             then ((highPrice ticker - lowPrice ticker) / lowPrice ticker) * Fin 100
             else Fin 0);
          rangeScore = Math_min range (Fin 20);
          velocity = Math_abs (priceChangePercent ticker) / Math_max range (Fin 1);
          velocityScore = Math_min (velocity * Fin 10) (Fin 15);
          baseline = priceMoveScore + volumeScore + rangeScore + velocityScore
      in baseline)"

definition calculateOpenInterestDelta :: "OpenInterestPoint list \<Rightarrow> jsnum" where
  "calculateOpenInterestDelta points =
     (if length points < 2 then Fin 0
      else
        let sorted = Array_sort (\<lambda>a b. timestamp a - timestamp b) points;
            latest = sumOpenInterest (sorted ! (length sorted - 1));
            prev = sumOpenInterest (sorted ! (length sorted - 2))
        in if strict_eq prev (Fin 0) then Fin 0
           else ((latest - prev) / prev) * Fin 100)"

text \<open>The first test of \<open>calculateOpenInterestDelta\<close>, \<open>!points\<close>: a history that is
  \<open>null\<close> gives 0; \<open>calculateOpenInterestDelta\<close> above is the function on an array.\<close>

definition calculateOpenInterestDelta_body :: "OpenInterestPoint list option \<Rightarrow> jsnum" where
  "calculateOpenInterestDelta_body points =
     (case points of None \<Rightarrow> Fin 0 | Some ps \<Rightarrow> calculateOpenInterestDelta ps)"

text \<open>\<open>Math.max(...xs)\<close> and \<open>Math.min(...xs)\<close>; of no argument they are \<open>-Infinity\<close> and
  \<open>Infinity\<close>.\<close>

definition Math_max_list :: "jsnum list \<Rightarrow> jsnum" where
  "Math_max_list xs = fold (\<lambda>x acc. Math_max acc x) xs NInf"

definition Math_min_list :: "jsnum list \<Rightarrow> jsnum" where
  "Math_min_list xs = fold (\<lambda>x acc. Math_min acc x) xs PInf"

definition detectBreakout :: "jsnum list \<Rightarrow> jsnum list \<Rightarrow> jsnum \<Rightarrow> Breakout" where
  "detectBreakout highs' lows' price =
     (let recentHighs = slice_from highs' (- 20);
          recentLows = slice_from lows' (- 20);
          referenceHighs = (if length recentHighs \<noteq> 0 then recentHighs else highs');
          referenceLows = (if length recentLows \<noteq> 0 then recentLows else lows');
          recentHigh = Math_max_list referenceHighs;
          recentLow = Math_min_list referenceLows;
          nearHigh' = (price - recentHigh) / recentHigh;
          nearLow' = (price - recentLow) / recentLow
      in \<lparr>nearHigh = nearHigh', nearLow = nearLow',
          isBreakout = (nearHigh' > Fin (- 0.002)),
          isBreakdown = (nearLow' < Fin 0.002)\<rparr>)"

definition deriveRiskScore :: "jsnum \<Rightarrow> jsnum \<Rightarrow> jsnum \<Rightarrow> jsnum \<Rightarrow> jsnum \<Rightarrow> jsnum" where
  "deriveRiskScore volatility' fundingRatePct' oiChangePct' volSpike1h' volSpike15m' =
     (let volRisk = Math_min (volatility' / Fin 1.5) (Fin 6);
          fundingRisk = Math_min (Math_abs fundingRatePct' * Fin 120) (Fin 4);
          oiRisk = Math_max (Fin 0) (Fin 3 - Math_min (Math_abs oiChangePct') (Fin 3));
          volumeRisk =
            (if volSpike1h' > Fin 2.2 \<or> volSpike15m' > Fin 2.2 then Fin 1.5
             else if volSpike1h' < Fin 1 then Fin 4 else Fin 1);
          raw = volRisk + fundingRisk + oiRisk + volumeRisk
      in Math_max (Fin 1) (Math_min (Fin 10) (toFixed_number 1 raw)))"

definition deriveConfidence :: "jsnum \<Rightarrow> jsnum \<Rightarrow> Confidence" where
  "deriveConfidence composite' riskScore' =
     (if composite' > Fin 90 \<and> riskScore' \<le> Fin 4 then High
      else if composite' > Fin 70 \<and> riskScore' \<le> Fin 6 then Medium
      else Low)"

definition roundToTickSize :: "jsnum \<Rightarrow> jsnum" where
  "roundToTickSize price =
     (if price \<ge> Fin 1000 then toFixed_number 1 price
      else if price \<ge> Fin 100 then toFixed_number 2 price
      else if price \<ge> Fin 10 then toFixed_number 3 price
      else if price \<ge> Fin 1 then toFixed_number 4 price
      else toFixed_number 5 price)"

text \<open>\<open>xs.pop() ?? d\<close>: the last element, or \<open>d\<close> for the empty array.\<close>

definition pop_or :: "jsnum list \<Rightarrow> jsnum \<Rightarrow> jsnum" where
  "pop_or xs d = (if xs = [] then d else last xs)"

text \<open>
  The body of \<open>evaluateSymbol\<close> after the five requests have been answered, in two
  parts. \<open>evaluation\<close> is the computation from \<open>parseKlines\<close> to the returned record,
  on candle arrays and a premium object that are there; the open-interest history may be
  \<open>null\<close>.
\<close>

definition evaluation ::
  "BaseTickerSnapshot \<Rightarrow> Kline list \<Rightarrow> Kline list \<Rightarrow> Kline list \<Rightarrow> PremiumIndex \<Rightarrow>
   OpenInterestPoint list option \<Rightarrow> EvaluatedSymbol" where
  "evaluation ticker klines1h klines4h klines15m premium oiHist =
       (let oneHour = parseKlines klines1h;
            fourHour = parseKlines klines4h;
            fifteenMin = parseKlines klines15m;
            lastPrice' = lastElem (closes oneHour);
            rsi1h' = rsi (slice_from (closes oneHour) (- 120)) 14;
            rsi4h' = rsi (slice_from (closes fourHour) (- 120)) 14;
            macd1h' = macd (slice_from (closes oneHour) (- 160)) 12 26 9;
            macd4h' = macd (slice_from (closes fourHour) (- 160)) 12 26 9;
            ema21_1h = pop_or (ema (closes oneHour) 21) lastPrice';
            ema50_1h = pop_or (ema (closes oneHour) 50) lastPrice';
            ema21_4h = pop_or (ema (closes fourHour) 21) lastPrice';
            ema50_4h = pop_or (ema (closes fourHour) 50) lastPrice';
            emaTrend1h' =
              (lastPrice' - ema21_1h) / ema21_1h - (ema21_1h - ema50_1h) / ema50_1h;
            emaTrend4h' =
              (lastPrice' - ema21_4h) / ema21_4h - (ema21_4h - ema50_4h) / ema50_4h;
            volSpike1h' = volumeSpikeRatio (volumes oneHour) 20;
            volSpike15m' = volumeSpikeRatio (volumes fifteenMin) 20;
            volatility' = volatilityPercent (slice_from (closes oneHour) (- 48));
            fundingRatePct' = lastFundingRate premium * Fin 100;
            oiChangePct' = calculateOpenInterestDelta_body oiHist;
            breakout' = detectBreakout (highs oneHour) (lows oneHour) lastPrice';
            longerBreakout' = detectBreakout (highs fourHour) (lows fourHour) lastPrice';
            params =
              \<lparr>priceChange = priceChangePercent ticker, volSpike1h = volSpike1h',
               volSpike15m = volSpike15m', emaTrend1h = emaTrend1h', emaTrend4h = emaTrend4h',
               rsi1h = rsi1h', rsi4h = rsi4h', macdHist1h = histogram macd1h',
               macdHist4h = histogram macd4h', breakout = breakout',
               longerBreakout = longerBreakout', oiChangePct = oiChangePct',
               volatility = volatility', fundingRatePct = fundingRatePct'\<rparr>;
            movementStatus' = determineMovementStatus params;
            direction' = direction_of emaTrend1h' emaTrend4h' rsi1h';
            compositeScore' = buildCompositeScore params;
            riskScore' =
              deriveRiskScore volatility' fundingRatePct' oiChangePct' volSpike1h' volSpike15m';
            confidence' = deriveConfidence compositeScore' riskScore';
            tpMultipliers =
              (if direction' = Long then [Fin 1.006, Fin 1.012, Fin 1.02]
               else [Fin 0.994, Fin 0.988, Fin 0.978]);
            stopMultiplier' = stopMultiplier direction' volatility';
            leverage =
              (if volatility' < Fin 2 then ''15-20x''
               else if volatility' < Fin 3.5 then ''10-15x''
               else if volatility' < Fin 5 then ''6-10x''
               else if volatility' < Fin 7 then ''4-6x''
               else ''3-4x'')
        in \<lparr>EvaluatedSymbol.symbol = BaseTickerSnapshot.symbol ticker,
             movementStatus = movementStatus',
             riskScore = riskScore',
             confidence = confidence',
             direction = direction',
             entry = roundToTickSize lastPrice',
             takeProfits = map (\<lambda>m. roundToTickSize (lastPrice' * m)) tpMultipliers,
             stopLoss = roundToTickSize (lastPrice' * stopMultiplier'),
             safeLeverage = leverage,
             compositeScore = compositeScore',
             metadata =
               \<lparr>Metadata.rsi1h = rsi1h', Metadata.rsi4h = rsi4h',
                macd1h = MacdResult.macd macd1h',
                macdHistogram1h = histogram macd1h',
                macd4h = MacdResult.macd macd4h',
                macdHistogram4h = histogram macd4h',
                Metadata.emaTrend1h = emaTrend1h', Metadata.emaTrend4h = emaTrend4h',
                volumeSpikeRatio' = volSpike1h',
                openInterestDeltaPct = oiChangePct',
                Metadata.fundingRatePct = fundingRatePct',
                volatilityPct = volatility',
                priceChange24h = priceChangePercent ticker\<rparr>\<rparr>)"

text \<open>
  \<open>evaluateFetched\<close> is the body with what it does before and around that computation,
  in the order of the source: the test of the two lengths (reading the length of \<open>null\<close>
  throws; a short 1h series returns \<open>null\<close> before the 4h series is looked at), the
  three calls of \<open>parseKlines\<close> (iterating over \<open>null\<close> throws) and the reading of
  \<open>premium.lastFundingRate\<close> (throws on \<open>null\<close>).
\<close>

definition evaluateFetched ::
  "BaseTickerSnapshot \<Rightarrow> Kline list option \<Rightarrow> Kline list option \<Rightarrow> Kline list option \<Rightarrow>
   PremiumIndex option \<Rightarrow> OpenInterestPoint list option \<Rightarrow> error + EvaluatedSymbol option" where
  "evaluateFetched ticker klines1h klines4h klines15m premium oiHist =
     (case klines1h of
        None \<Rightarrow> Inl TypeError
      | Some ks1h \<Rightarrow>
          if length ks1h < 30 then Inr None
          else
     (case klines4h of
        None \<Rightarrow> Inl TypeError
      | Some ks4h \<Rightarrow>
          if length ks4h < 30 then Inr None
          else
     (case klines15m of
        None \<Rightarrow> Inl TypeError
      | Some ks15m \<Rightarrow>
     (case premium of
        None \<Rightarrow> Inl TypeError
      | Some prem \<Rightarrow> Inr (Some (evaluation ticker ks1h ks4h ks15m prem oiHist))))))"

text \<open>
  \<open>evaluateSymbol\<close>: \<open>Promise.all\<close> of the five requests is rejected as soon as one of
  them is, and the function then throws (\<open>Inl\<close>); otherwise it runs its body, which
  returns an evaluation or \<open>null\<close> (\<open>None\<close>) or throws.
\<close>

definition evaluateSymbol :: "Market \<Rightarrow> BaseTickerSnapshot \<Rightarrow> error + EvaluatedSymbol option" where
  "evaluateSymbol market ticker =
     (case fetchKlines market (BaseTickerSnapshot.symbol ticker) ''1h'' 180 of
        Inl e \<Rightarrow> Inl e
      | Inr klines1h \<Rightarrow>
     (case fetchKlines market (BaseTickerSnapshot.symbol ticker) ''4h'' 180 of
        Inl e \<Rightarrow> Inl e
      | Inr klines4h \<Rightarrow>
     (case fetchKlines market (BaseTickerSnapshot.symbol ticker) ''15m'' 180 of
        Inl e \<Rightarrow> Inl e
      | Inr klines15m \<Rightarrow>
     (case fetchPremiumIndex market (BaseTickerSnapshot.symbol ticker) of
        Inl e \<Rightarrow> Inl e
      | Inr premium \<Rightarrow>
     (case fetchOpenInterestHist market (BaseTickerSnapshot.symbol ticker) ''5m'' 12 of
        Inl e \<Rightarrow> Inl e
      | Inr oiHist \<Rightarrow>
          evaluateFetched ticker klines1h klines4h klines15m premium oiHist)))))"

text \<open>
  The response of \<open>GET\<close>: the ranked views, the message that nothing qualifies (with both
  views empty), or the failure of the scan (status 500).
\<close>

datatype ScanResponse =
  Ranked jsnum "EvaluatedSymbol list" "EvaluatedSymbol list" "EvaluatedSymbol list"
| NoTrade jsnum "EvaluatedSymbol list" "EvaluatedSymbol list" string
| ScanFailed string nat

fun movers :: "ScanResponse \<Rightarrow> EvaluatedSymbol list option" where
  "movers (Ranked t m s a) = Some m"
| "movers (NoTrade t m s msg) = Some m"
| "movers (ScanFailed msg code) = None"

fun strongest :: "ScanResponse \<Rightarrow> EvaluatedSymbol list option" where
  "strongest (Ranked t m s a) = Some s"
| "strongest (NoTrade t m s msg) = Some s"
| "strongest (ScanFailed msg code) = None"

text \<open>\<open>evaluateSymbol(ticker).catch(() => null)\<close>, under the limiter: a rejection becomes
  \<open>null\<close>. \<open>Promise.all\<close> delivers the results in the order of the shortlist, whatever
  the order in which the limiter ran them.\<close>

definition evaluateOrNull :: "Market \<Rightarrow> BaseTickerSnapshot \<Rightarrow> EvaluatedSymbol option" where
  "evaluateOrNull market ticker =
     (case evaluateSymbol market ticker of Inl e \<Rightarrow> None | Inr r \<Rightarrow> r)"

text \<open>The two filters and the sort that make \<open>evaluated\<close> from the awaited results.\<close>

definition rank :: "EvaluatedSymbol option list \<Rightarrow> EvaluatedSymbol list" where
  "rank results =
     Array_sort (\<lambda>a b. compositeScore b - compositeScore a)
       (filter (\<lambda>item. compositeScore item \<ge> Fin 55)
          (map the (filter (\<lambda>item. item \<noteq> None) results)))"

text \<open>\<open>GET\<close> from the shortlist on: the evaluations, the funnel and the response.\<close>

definition respond :: "jsnum \<Rightarrow> EvaluatedSymbol list \<Rightarrow> ScanResponse" where
  "respond now evaluated =
     (if length evaluated = 0
      then NoTrade now [] [] ''NO SAFE FUTURES TRADE RIGHT NOW.''
      else Ranked now (slice evaluated 0 5) (slice evaluated 0 3) evaluated)"

definition scanShortlist ::
  "Market \<Rightarrow> jsnum \<Rightarrow> (BaseTickerSnapshot \<times> jsnum) list \<Rightarrow> ScanResponse" where
  "scanShortlist market now preScored =
     respond now (rank (map (\<lambda>(ticker, preScore). evaluateOrNull market ticker) preScored))"

text \<open>\<open>GET\<close>. \<open>now\<close> is the reading of the clock, \<open>Date.now()\<close>. A rejected request for
  the symbols or the tickers, and a ticker body that is \<open>null\<close> (\<open>tickers.filter\<close>
  throws), end in the \<open>catch\<close> of the function.\<close>

definition GET :: "Market \<Rightarrow> jsnum \<Rightarrow> ScanResponse" where
  "GET market now =
     (case fetchPerpetualSymbols market of
        Inl e \<Rightarrow> ScanFailed ''Failed to run live Binance Futures scan.'' 500
      | Inr symbols \<Rightarrow>
     (case fetchTickers market of
        Inl e \<Rightarrow> ScanFailed ''Failed to run live Binance Futures scan.'' 500
      | Inr None \<Rightarrow> ScanFailed ''Failed to run live Binance Futures scan.'' 500
      | Inr (Some tickers) \<Rightarrow>
          let tradable = set (map FuturesSymbol.symbol symbols);
              filteredTickers =
                filter (\<lambda>t. quoteVolume t > Fin 2000000)
                  (map normalizeTicker
                     (filter (\<lambda>t. Ticker24h.symbol t \<in> tradable) tickers))
          in if length filteredTickers = 0
             then NoTrade now [] [] ''NO SAFE FUTURES TRADE RIGHT NOW.''
             else
               let preScored =
                     slice
                       (Array_sort (\<lambda>a b. snd b - snd a)
                          (map (\<lambda>ticker. (ticker, preScoreTicker ticker)) filteredTickers))
                       0 (int MAX_DEEP_SYMBOLS)
               in scanShortlist market now preScored))"

section \<open>Notions used in the statements\<close>

text \<open>A number that is not below zero: a finite number that is not negative,
  \<open>Infinity\<close>, or \<open>NaN\<close>. The running sums and averages of \<open>rsi\<close> and the sum of
  squares of \<open>standardDeviation\<close> are of this kind on every input.\<close>

fun not_negative :: "jsnum \<Rightarrow> bool" where
  "not_negative (Fin a) = (0 \<le> a)"
| "not_negative PInf = True"
| "not_negative NInf = False"
| "not_negative NaN = True"

text \<open>The value of a finite number (0 for the others); the sorts of the program on
  finite keys are compared with the sort of the library on these values.\<close>

fun num :: "jsnum \<Rightarrow> real" where
  "num (Fin a) = a"
| "num PInf = 0"
| "num NInf = 0"
| "num NaN = 0"

text \<open>
  The per-symbol failures that the code drops a symbol for: one of the five requests of
  the symbol is rejected, the body of one of its three candle requests or of its premium
  request is \<open>null\<close>, or one of its two trend series (1h, 4h) has fewer than 30 bars. A
  \<open>null\<close> open-interest history is not among them.
\<close>

definition request_failed :: "error + 'a \<Rightarrow> bool" where
  "request_failed r = (case r of Inl e \<Rightarrow> True | Inr x \<Rightarrow> False)"

definition null_body :: "error + 'a option \<Rightarrow> bool" where
  "null_body r = (case r of Inl e \<Rightarrow> False | Inr None \<Rightarrow> True | Inr (Some x) \<Rightarrow> False)"

definition too_short :: "error + Kline list option \<Rightarrow> bool" where
  "too_short r =
     (case r of Inl e \<Rightarrow> False | Inr None \<Rightarrow> False | Inr (Some ks) \<Rightarrow> length ks < 30)"


text \<open>
  Sample data for the closed instances below: an evaluation with a given symbol and
  score, a ticker with a given symbol, and a market whose candle requests for
  \<open>DOWNUSDT\<close> fail while every other symbol gets 30 flat candles and a funding rate; the
  open-interest history is \<open>null\<close> for \<open>NOOIUSDT\<close> and has two points for every other
  symbol.
\<close>

definition sample_evaluation :: "string \<Rightarrow> real \<Rightarrow> EvaluatedSymbol" where
  "sample_evaluation name score =
     \<lparr>EvaluatedSymbol.symbol = name, movementStatus = LikelyIn24H, riskScore = Fin 5,
      confidence = Low, direction = Long, entry = Fin 10,
      takeProfits = [Fin 10.06, Fin 10.12, Fin 10.2], stopLoss = Fin 9.88,
      safeLeverage = ''15-20x'', compositeScore = Fin score,
      metadata =
        \<lparr>Metadata.rsi1h = Fin 50, Metadata.rsi4h = Fin 50, macd1h = Fin 0,
         macdHistogram1h = Fin 0, macd4h = Fin 0, macdHistogram4h = Fin 0,
         Metadata.emaTrend1h = Fin 0, Metadata.emaTrend4h = Fin 0,
         volumeSpikeRatio' = Fin 1, openInterestDeltaPct = Fin 0,
         Metadata.fundingRatePct = Fin 0.01, volatilityPct = Fin 0,
         priceChange24h = Fin 0\<rparr>\<rparr>"


definition flat_candles :: "Kline list" where
  "flat_candles = replicate 30 \<lparr>k2 = Fin 10, k3 = Fin 10, k4 = Fin 10, k5 = Fin 100\<rparr>"

definition sample_premium :: "string \<Rightarrow> PremiumIndex" where
  "sample_premium name =
     \<lparr>PremiumIndex.symbol = name, markPrice = Fin 10, indexPrice = Fin 10,
      estimatedSettlePrice = Fin 10, lastFundingRate = Fin 0.0001,
      nextFundingTime = Fin 0, interestRate = Fin 0.0001, time = Fin 0\<rparr>"

definition sample_market :: Market where
  "sample_market =
     \<lparr>exchangeInfo = Inr (Some []), ticker24hr = Inr (Some []),
      klines = (\<lambda>name interval limit.
        if name = ''DOWNUSDT'' then Inl (Error ''Binance request failed (503)'')
        else Inr (Some flat_candles)),
      premiumIndex = (\<lambda>name. Inr (Some (sample_premium name))),
      openInterestHist = (\<lambda>name period limit.
        if name = ''NOOIUSDT'' then Inr None
        else
          Inr (Some
            [\<lparr>OpenInterestPoint.symbol = name, sumOpenInterest = Fin 100,
               sumOpenInterestValue = Fin 1000, timestamp = Fin 1\<rparr>,
             \<lparr>OpenInterestPoint.symbol = name, sumOpenInterest = Fin 102,
               sumOpenInterestValue = Fin 1020, timestamp = Fin 2\<rparr>]))\<rparr>"

section \<open>Arithmetic on finite numbers\<close>

lemma le_Fin [simp]: "(Fin a \<le> Fin b) = (a \<le> b)"
  by (auto simp: less_eq_jsnum_def strict_eq_def)

lemma minus_Fin [simp]: "Fin a - Fin b = Fin (a - b)"
  by (simp add: minus_jsnum_def)

lemma strict_eq_Fin [simp]: "strict_eq (Fin a) (Fin b) = (a = b)"
  by (simp add: strict_eq_def)

lemma Math_min_Fin [simp]: "Math_min (Fin a) (Fin b) = Fin (min a b)"
  by (simp add: Math_min_def min_def)

lemma Math_max_Fin [simp]: "Math_max (Fin a) (Fin b) = Fin (max a b)"
  by (simp add: Math_max_def max_def)

lemma truthy_Fin [simp]: "truthy (Fin a) = (a \<noteq> 0)"
  by (simp add: truthy_def)

lemma if_Fin: "(if c then Fin a else Fin b) = Fin (if c then a else b)"
  by simp

lemma truthy_if [simp]: "truthy (Fin (if c then 1 else 0)) = c"
  by simp

lemma divide_Fin [simp]: "b \<noteq> 0 \<Longrightarrow> Fin a / Fin b = Fin (a / b)"
  by simp

lemma elemAt_map_Fin [simp]: "i < length vs \<Longrightarrow> elemAt (map Fin vs) i = Fin (vs ! i)"
  by (simp add: elemAt_def)

lemma plus_NaN [simp]: "x + NaN = NaN" "NaN + x = NaN"
  by (cases x; simp)+

lemma minus_NaN [simp]: "x - NaN = NaN" "NaN - x = NaN"
  by (simp_all add: minus_jsnum_def)

lemma times_NaN [simp]: "x * NaN = NaN" "NaN * x = NaN"
  by (cases x; simp)+

lemma divide_NaN [simp]: "x / NaN = NaN" "NaN / x = NaN"
  by (cases x; simp)+

lemma Math_min_NaN [simp]: "Math_min x NaN = NaN" "Math_min NaN x = NaN"
  by (simp_all add: Math_min_def)

lemma Math_max_NaN [simp]: "Math_max x NaN = NaN" "Math_max NaN x = NaN"
  by (simp_all add: Math_max_def)

section \<open>The composite score\<close>

lemma composite_Fin:
  "composite \<lparr>priceChange = Fin pc, volSpike1h = Fin v1, volSpike15m = Fin v15,
         emaTrend1h = Fin e1, emaTrend4h = Fin e4, rsi1h = Fin r1, rsi4h = Fin r4,
         macdHist1h = Fin m1, macdHist4h = Fin m4, breakout = b1, longerBreakout = b4,
         oiChangePct = Fin oi, volatility = Fin vol, fundingRatePct = Fin f\<rparr> =
   Fin (min (v1 * 15) 18 + min (v15 * 12) 15 +
         (min (\<bar>e1\<bar> * 110) 18 + min (\<bar>e4\<bar> * 90) 16) +
         (min (\<bar>m1\<bar> * 70000) 12 + min (\<bar>m4\<bar> * 40000) 10) +
         (if (r1 > 55 \<and> r4 > 52) \<or> (r1 < 45 \<and> r4 < 48) then 10 else 4) +
         min (\<bar>oi\<bar> * 4) 12 +
         min (vol * 4) 15 +
         ((if sgn e1 = sgn e4 then 1 else 0) + (if sgn m1 = sgn m4 then 1 else 0) +
          (if (r1 > 55 \<and> r4 > 52) \<or> (r1 < 45 \<and> r4 < 48) then 1 else 0)) * 6 +
         ((if isBreakout b1 then 1 else 0) + (if isBreakout b4 then 0.8 else 0)) * 8 -
         max (\<bar>f\<bar> - 0.03) 0 * 120)"
  unfolding composite_def Let_def trendAlignment_def macdAlignment_def rsiAlignment_def
  by (simp only: MovementParams.simps ScoreParams.simps Math_abs.simps Math_sign.simps
      less_jsnum.simps strict_eq_Fin if_Fin truthy_if plus_jsnum.simps times_jsnum.simps
      minus_Fin Math_min_Fin Math_max_Fin)

lemma buildCompositeScore_isFinite: "isFinite (buildCompositeScore p)"
  by (simp add: buildCompositeScore_def)

lemma score_lower_bound:
  fixes a b c d g h i j k :: real
  assumes "0 \<le> a" "0 \<le> b" "0 \<le> c" "0 \<le> d" "0 \<le> g" "0 \<le> h" "0 \<le> i" "0 \<le> j" "k = 0"
  shows "4 \<le> a + b + (c + d) + (g + h) + (if R then 10 else 4) + i + j +
      ((if T then 1 else 0) + (if M then 1 else 0) + (if R then 1 else 0)) * 6 +
      ((if B1 then 1 else 0) + (if B4 then 0.8 else 0)) * 8 - k * 120"
proof -
  have "4 \<le> (if R then 10 else 4 :: real)"
    by simp
  moreover have
    "0 \<le> ((if T then 1 else 0) + (if M then 1 else 0) + (if R then 1 else 0)) * (6::real)"
    by simp
  moreover have "0 \<le> ((if B1 then 1 else 0) + (if B4 then 0.8 else 0)) * (8::real)"
    by simp
  ultimately show ?thesis
    using assms by linarith
qed

text \<open>
  Claim C1, as the code has it. On finite inputs \<open>buildCompositeScore\<close> returns the finite
  number \<open>total\<close>: the capped volume-spike, EMA-trend, MACD-histogram, open-interest and
  volatility terms, the RSI term (10 if aligned, else 4), 6 for each agreeing signal, 8
  and 6.4 for the two breakouts, minus 120 times the part of the absolute funding rate
  above 0.03. The total is at least 4 when the volume-spike ratios and the volatility are
  not negative and the funding rate is within 0.03 (otherwise it can be negative). On any
  input whose sum is not finite the function returns 0, and its result is always finite.
\<close>

theorem buildCompositeScore_sum:
  "(let params = \<lparr>priceChange = Fin pc, volSpike1h = Fin v1, volSpike15m = Fin v15,
         emaTrend1h = Fin e1, emaTrend4h = Fin e4, rsi1h = Fin r1, rsi4h = Fin r4,
         macdHist1h = Fin m1, macdHist4h = Fin m4, breakout = b1, longerBreakout = b4,
         oiChangePct = Fin oi, volatility = Fin vol, fundingRatePct = Fin f\<rparr>;
       rsiAligned = ((r1 > 55 \<and> r4 > 52) \<or> (r1 < 45 \<and> r4 < 48));
       total =
         min (v1 * 15) 18 + min (v15 * 12) 15 +
         (min (\<bar>e1\<bar> * 110) 18 + min (\<bar>e4\<bar> * 90) 16) +
         (min (\<bar>m1\<bar> * 70000) 12 + min (\<bar>m4\<bar> * 40000) 10) +
         (if rsiAligned then 10 else 4) +
         min (\<bar>oi\<bar> * 4) 12 +
         min (vol * 4) 15 +
         ((if sgn e1 = sgn e4 then 1 else 0) + (if sgn m1 = sgn m4 then 1 else 0) +
          (if rsiAligned then 1 else 0)) * 6 +
         ((if isBreakout b1 then 1 else 0) + (if isBreakout b4 then 0.8 else 0)) * 8 -
         max (\<bar>f\<bar> - 0.03) 0 * 120
   in buildCompositeScore params = Fin total \<and>
      (0 \<le> v1 \<and> 0 \<le> v15 \<and> 0 \<le> vol \<and> \<bar>f\<bar> \<le> 0.03 \<longrightarrow> 4 \<le> total)) \<and>
   (\<not> isFinite (composite p) \<longrightarrow> buildCompositeScore p = Fin 0) \<and>
   isFinite (buildCompositeScore p)"
  unfolding Let_def
proof (intro conjI impI)
  show "buildCompositeScore \<lparr>priceChange = Fin pc, volSpike1h = Fin v1, volSpike15m = Fin v15,
         emaTrend1h = Fin e1, emaTrend4h = Fin e4, rsi1h = Fin r1, rsi4h = Fin r4,
         macdHist1h = Fin m1, macdHist4h = Fin m4, breakout = b1, longerBreakout = b4,
         oiChangePct = Fin oi, volatility = Fin vol, fundingRatePct = Fin f\<rparr> =
       Fin (min (v1 * 15) 18 + min (v15 * 12) 15 +
         (min (\<bar>e1\<bar> * 110) 18 + min (\<bar>e4\<bar> * 90) 16) +
         (min (\<bar>m1\<bar> * 70000) 12 + min (\<bar>m4\<bar> * 40000) 10) +
         (if (r1 > 55 \<and> r4 > 52) \<or> (r1 < 45 \<and> r4 < 48) then 10 else 4) +
         min (\<bar>oi\<bar> * 4) 12 +
         min (vol * 4) 15 +
         ((if sgn e1 = sgn e4 then 1 else 0) + (if sgn m1 = sgn m4 then 1 else 0) +
          (if (r1 > 55 \<and> r4 > 52) \<or> (r1 < 45 \<and> r4 < 48) then 1 else 0)) * 6 +
         ((if isBreakout b1 then 1 else 0) + (if isBreakout b4 then 0.8 else 0)) * 8 -
         max (\<bar>f\<bar> - 0.03) 0 * 120)"
    by (simp only: buildCompositeScore_def composite_Fin isFinite.simps if_True)
next
  assume h: "0 \<le> v1 \<and> 0 \<le> v15 \<and> 0 \<le> vol \<and> \<bar>f\<bar> \<le> 0.03"
  show "4 \<le> min (v1 * 15) 18 + min (v15 * 12) 15 +
         (min (\<bar>e1\<bar> * 110) 18 + min (\<bar>e4\<bar> * 90) 16) +
         (min (\<bar>m1\<bar> * 70000) 12 + min (\<bar>m4\<bar> * 40000) 10) +
         (if (r1 > 55 \<and> r4 > 52) \<or> (r1 < 45 \<and> r4 < 48) then 10 else 4) +
         min (\<bar>oi\<bar> * 4) 12 +
         min (vol * 4) 15 +
         ((if sgn e1 = sgn e4 then 1 else 0) + (if sgn m1 = sgn m4 then 1 else 0) +
          (if (r1 > 55 \<and> r4 > 52) \<or> (r1 < 45 \<and> r4 < 48) then 1 else 0)) * 6 +
         ((if isBreakout b1 then 1 else 0) + (if isBreakout b4 then 0.8 else 0)) * 8 -
         max (\<bar>f\<bar> - 0.03) 0 * 120"
  proof (rule score_lower_bound)
    show "0 \<le> min (v1 * 15) 18" using h by simp
    show "0 \<le> min (v15 * 12) 15" using h by simp
    show "0 \<le> min (\<bar>e1\<bar> * 110) 18" by simp
    show "0 \<le> min (\<bar>e4\<bar> * 90) 16" by simp
    show "0 \<le> min (\<bar>m1\<bar> * 70000) 12" by simp
    show "0 \<le> min (\<bar>m4\<bar> * 40000) 10" by simp
    show "0 \<le> min (\<bar>oi\<bar> * 4) 12" by simp
    show "0 \<le> min (vol * 4) 15" using h by simp
    show "max (\<bar>f\<bar> - 0.03) 0 = 0" using h by simp
  qed
next
  assume "\<not> isFinite (composite p)"
  then show "buildCompositeScore p = Fin 0"
    by (simp add: buildCompositeScore_def)
next
  show "isFinite (buildCompositeScore p)"
    by (rule buildCompositeScore_isFinite)
qed

theorem buildCompositeScore_sum_witness:
  "buildCompositeScore \<lparr>priceChange = Fin 2, volSpike1h = Fin 1.8, volSpike15m = Fin 1.8,
         emaTrend1h = Fin 0.02, emaTrend4h = Fin 0.015, rsi1h = Fin 65, rsi4h = Fin 60,
         macdHist1h = Fin 0.001, macdHist4h = Fin 0.002,
         breakout = \<lparr>nearHigh = Fin (- 0.05), nearLow = Fin 0.05, isBreakout = False, isBreakdown = False\<rparr>,
         longerBreakout = \<lparr>nearHigh = Fin (- 0.05), nearLow = Fin 0.05, isBreakout = False, isBreakdown = False\<rparr>,
         oiChangePct = Fin 2, volatility = Fin 3, fundingRatePct = Fin 0.01\<rparr> = Fin 106.55 \<and>
   \<not> isFinite (composite \<lparr>priceChange = Fin 2, volSpike1h = Fin 1.8, volSpike15m = Fin 1.8,
         emaTrend1h = Fin 0.02, emaTrend4h = Fin 0.015, rsi1h = Fin 65, rsi4h = Fin 60,
         macdHist1h = Fin 0.001, macdHist4h = Fin 0.002,
         breakout = \<lparr>nearHigh = Fin (- 0.05), nearLow = Fin 0.05, isBreakout = False, isBreakdown = False\<rparr>,
         longerBreakout = \<lparr>nearHigh = Fin (- 0.05), nearLow = Fin 0.05, isBreakout = False, isBreakdown = False\<rparr>,
         oiChangePct = Fin 2, volatility = Fin 3, fundingRatePct = NaN\<rparr>) \<and>
   buildCompositeScore \<lparr>priceChange = Fin 2, volSpike1h = Fin 1.8, volSpike15m = Fin 1.8,
         emaTrend1h = Fin 0.02, emaTrend4h = Fin 0.015, rsi1h = Fin 65, rsi4h = Fin 60,
         macdHist1h = Fin 0.001, macdHist4h = Fin 0.002,
         breakout = \<lparr>nearHigh = Fin (- 0.05), nearLow = Fin 0.05, isBreakout = False, isBreakdown = False\<rparr>,
         longerBreakout = \<lparr>nearHigh = Fin (- 0.05), nearLow = Fin 0.05, isBreakout = False, isBreakdown = False\<rparr>,
         oiChangePct = Fin 2, volatility = Fin 3, fundingRatePct = NaN\<rparr> = Fin 0"
proof -
  let ?b = "\<lparr>nearHigh = Fin (- 0.05), nearLow = Fin 0.05, isBreakout = False, isBreakdown = False\<rparr>"
  let ?p = "\<lparr>priceChange = Fin 2, volSpike1h = Fin 1.8, volSpike15m = Fin 1.8,
         emaTrend1h = Fin 0.02, emaTrend4h = Fin 0.015, rsi1h = Fin 65, rsi4h = Fin 60,
         macdHist1h = Fin 0.001, macdHist4h = Fin 0.002,
         breakout = ?b, longerBreakout = ?b,
         oiChangePct = Fin 2, volatility = Fin 3, fundingRatePct = NaN\<rparr>"
  have nf: "\<not> isFinite (composite ?p)"
    by (simp add: composite_def Let_def)
  show ?thesis
    using nf buildCompositeScore_sum [where pc = 2 and ?v1.0 = "1.8" and ?v15.0 = "1.8"
      and ?e1.0 = "0.02" and ?e4.0 = "0.015" and ?r1.0 = 65 and ?r4.0 = 60
      and ?m1.0 = "0.001" and ?m4.0 = "0.002" and ?b1.0 = ?b and ?b4.0 = ?b
      and oi = 2 and vol = 3 and f = "0.01" and p = ?p]
    by (simp add: Let_def)
qed

text \<open>A funding rate of 1 with flat indicators: the score is negative.\<close>

theorem buildCompositeScore_negative_counterexample:
  "buildCompositeScore \<lparr>priceChange = Fin 0, volSpike1h = Fin 1, volSpike15m = Fin 1,
         emaTrend1h = Fin 0, emaTrend4h = Fin 0, rsi1h = Fin 50, rsi4h = Fin 50,
         macdHist1h = Fin 0, macdHist4h = Fin 0,
         breakout = \<lparr>nearHigh = Fin (- 0.05), nearLow = Fin 0.05, isBreakout = False, isBreakdown = False\<rparr>,
         longerBreakout = \<lparr>nearHigh = Fin (- 0.05), nearLow = Fin 0.05, isBreakout = False, isBreakdown = False\<rparr>,
         oiChangePct = Fin 0, volatility = Fin 0, fundingRatePct = Fin 1\<rparr> = Fin (- 73.4) \<and>
   \<not> (Fin 0 \<le> buildCompositeScore \<lparr>priceChange = Fin 0, volSpike1h = Fin 1, volSpike15m = Fin 1,
         emaTrend1h = Fin 0, emaTrend4h = Fin 0, rsi1h = Fin 50, rsi4h = Fin 50,
         macdHist1h = Fin 0, macdHist4h = Fin 0,
         breakout = \<lparr>nearHigh = Fin (- 0.05), nearLow = Fin 0.05, isBreakout = False, isBreakdown = False\<rparr>,
         longerBreakout = \<lparr>nearHigh = Fin (- 0.05), nearLow = Fin 0.05, isBreakout = False, isBreakdown = False\<rparr>,
         oiChangePct = Fin 0, volatility = Fin 0, fundingRatePct = Fin 1\<rparr>)"
  by (simp add: buildCompositeScore_def composite_Fin)

section \<open>The movement state\<close>

lemma strongMomentum_Fin:
  "strongMomentum \<lparr>priceChange = Fin pc, volSpike1h = Fin v1, volSpike15m = Fin v15,
         emaTrend1h = Fin e1, emaTrend4h = Fin e4, rsi1h = Fin r1, rsi4h = Fin r4,
         macdHist1h = Fin m1, macdHist4h = Fin m4, breakout = b1, longerBreakout = b4,
         oiChangePct = Fin oi, volatility = Fin vol\<rparr> =
   (v1 > 1.6 \<and> v15 > 1.4 \<and> \<bar>pc\<bar> > 1 \<and> sgn m1 = sgn m4 \<and>
         \<bar>e1\<bar> > 0.01 \<and> \<bar>e4\<bar> > 0.01 \<and> \<bar>oi\<bar> > 0.5)"
  by (simp only: strongMomentum_def MovementParams.simps Math_abs.simps Math_sign.simps
      less_jsnum.simps strict_eq_Fin)

lemma alignedMomentum_Fin:
  "alignedMomentum \<lparr>priceChange = Fin pc, volSpike1h = Fin v1, volSpike15m = Fin v15,
         emaTrend1h = Fin e1, emaTrend4h = Fin e4, rsi1h = Fin r1, rsi4h = Fin r4,
         macdHist1h = Fin m1, macdHist4h = Fin m4, breakout = b1, longerBreakout = b4,
         oiChangePct = Fin oi, volatility = Fin vol\<rparr> =
   ((v1 > 1.3 \<and> \<bar>e1\<bar> > 0.006 \<and> \<bar>m1\<bar> > 0.0005) \<or>
         (v15 > 1.2 \<and> \<bar>oi\<bar> > 0.3))"
  by (simp only: alignedMomentum_def MovementParams.simps Math_abs.simps Math_sign.simps
      less_jsnum.simps strict_eq_Fin)

lemma tier_cases:
  "((if A then MovingNow else if B then AboutToMove else LikelyIn24H) = MovingNow) = A \<and>
   ((if A then MovingNow else if B then AboutToMove else LikelyIn24H) = AboutToMove) =
     (\<not> A \<and> B) \<and>
   ((if A then MovingNow else if B then AboutToMove else LikelyIn24H) = LikelyIn24H) =
     (\<not> A \<and> \<not> B)"
  by simp

text \<open>
  Claim C2. On a finite indicator bundle \<open>determineMovementStatus\<close> returns
  \<open>Moving Now\<close> exactly when the strong-momentum conjunction holds or both breakout
  flags are set and the volatility is above 2.5; failing that, \<open>About To Move\<close> exactly
  when the aligned-momentum condition holds together with the agreement of the EMA-trend
  signs, of the MACD-histogram signs and of the RSI bias; and \<open>Likely in 24H\<close> exactly
  when neither tier matches.
\<close>

theorem determineMovementStatus_tiers:
  "let params = \<lparr>priceChange = Fin pc, volSpike1h = Fin v1, volSpike15m = Fin v15,
         emaTrend1h = Fin e1, emaTrend4h = Fin e4, rsi1h = Fin r1, rsi4h = Fin r4,
         macdHist1h = Fin m1, macdHist4h = Fin m4, breakout = b1, longerBreakout = b4,
         oiChangePct = Fin oi, volatility = Fin vol\<rparr>;
       strong = (v1 > 1.6 \<and> v15 > 1.4 \<and> \<bar>pc\<bar> > 1 \<and> sgn m1 = sgn m4 \<and>
         \<bar>e1\<bar> > 0.01 \<and> \<bar>e4\<bar> > 0.01 \<and> \<bar>oi\<bar> > 0.5);
       moving = (strong \<or> (isBreakout b1 \<and> isBreakout b4 \<and> vol > 2.5));
       aligned = ((v1 > 1.3 \<and> \<bar>e1\<bar> > 0.006 \<and> \<bar>m1\<bar> > 0.0005) \<or>
         (v15 > 1.2 \<and> \<bar>oi\<bar> > 0.3));
       about = (aligned \<and> sgn e1 = sgn e4 \<and> sgn m1 = sgn m4 \<and>
         ((r1 > 52 \<and> r4 > 50) \<or> (r1 < 48 \<and> r4 < 50)))
   in (determineMovementStatus params = MovingNow) = moving \<and>
      (determineMovementStatus params = AboutToMove) = (\<not> moving \<and> about) \<and>
      (determineMovementStatus params = LikelyIn24H) = (\<not> moving \<and> \<not> about)"
  unfolding Let_def determineMovementStatus_def strongMomentum_Fin alignedMomentum_Fin
  by (simp only: MovementParams.simps Math_abs.simps Math_sign.simps
      less_jsnum.simps strict_eq_Fin tier_cases)

theorem determineMovementStatus_tiers_witness:
  "determineMovementStatus \<lparr>priceChange = Fin 2, volSpike1h = Fin 1.8, volSpike15m = Fin 1.8,
         emaTrend1h = Fin 0.02, emaTrend4h = Fin 0.015, rsi1h = Fin 65, rsi4h = Fin 60,
         macdHist1h = Fin 0.001, macdHist4h = Fin 0.002,
         breakout = \<lparr>nearHigh = Fin (- 0.05), nearLow = Fin 0.05, isBreakout = False,
           isBreakdown = False\<rparr>,
         longerBreakout = \<lparr>nearHigh = Fin (- 0.05), nearLow = Fin 0.05, isBreakout = False,
           isBreakdown = False\<rparr>,
         oiChangePct = Fin 2, volatility = Fin 3\<rparr> = MovingNow \<and>
   determineMovementStatus \<lparr>priceChange = Fin 0.5, volSpike1h = Fin 1.4, volSpike15m = Fin 1,
         emaTrend1h = Fin 0.008, emaTrend4h = Fin 0.002, rsi1h = Fin 56, rsi4h = Fin 53,
         macdHist1h = Fin 0.001, macdHist4h = Fin 0.002,
         breakout = \<lparr>nearHigh = Fin (- 0.05), nearLow = Fin 0.05, isBreakout = False,
           isBreakdown = False\<rparr>,
         longerBreakout = \<lparr>nearHigh = Fin (- 0.05), nearLow = Fin 0.05, isBreakout = False,
           isBreakdown = False\<rparr>,
         oiChangePct = Fin 0.1, volatility = Fin 1\<rparr> = AboutToMove"
proof -
  let ?b = "\<lparr>nearHigh = Fin (- 0.05), nearLow = Fin 0.05, isBreakout = False,
    isBreakdown = False\<rparr>"
  show ?thesis
    using determineMovementStatus_tiers [where pc = 2 and ?v1.0 = "1.8" and ?v15.0 = "1.8"
        and ?e1.0 = "0.02" and ?e4.0 = "0.015" and ?r1.0 = 65 and ?r4.0 = 60
        and ?m1.0 = "0.001" and ?m4.0 = "0.002" and ?b1.0 = ?b and ?b4.0 = ?b
        and oi = 2 and vol = 3]
      determineMovementStatus_tiers [where pc = "0.5" and ?v1.0 = "1.4" and ?v15.0 = 1
        and ?e1.0 = "0.008" and ?e4.0 = "0.002" and ?r1.0 = 56 and ?r4.0 = 53
        and ?m1.0 = "0.001" and ?m4.0 = "0.002" and ?b1.0 = ?b and ?b4.0 = ?b
        and oi = "0.1" and vol = 1]
    by (simp add: Let_def)
qed

section \<open>Direction and stop multiplier\<close>

text \<open>
  Claim C5. On finite values the direction is Long if both trend scores are not negative
  and the one-hour RSI is at least 48; failing that, Short if both trend scores are not
  positive and the RSI is at most 52; otherwise Long exactly when the one-hour trend score
  is at least the four-hour one (Long on a tie). Where the Long and the Short condition
  both hold, as for trend scores of zero and an RSI of 50, the result is Long.
\<close>

theorem direction_of_rule:
  "(0 \<le> e1 \<and> 0 \<le> e4 \<and> 48 \<le> r \<longrightarrow> direction_of (Fin e1) (Fin e4) (Fin r) = Long) \<and>
   (\<not> (0 \<le> e1 \<and> 0 \<le> e4 \<and> 48 \<le> r) \<and> e1 \<le> 0 \<and> e4 \<le> 0 \<and> r \<le> 52 \<longrightarrow>
      direction_of (Fin e1) (Fin e4) (Fin r) = Short) \<and>
   (\<not> (0 \<le> e1 \<and> 0 \<le> e4 \<and> 48 \<le> r) \<and> \<not> (e1 \<le> 0 \<and> e4 \<le> 0 \<and> r \<le> 52) \<longrightarrow>
      (direction_of (Fin e1) (Fin e4) (Fin r) = Long) = (e4 \<le> e1) \<and>
      (direction_of (Fin e1) (Fin e4) (Fin r) = Short) = (e1 < e4))"
  by (auto simp: direction_of_def)

theorem direction_of_rule_witness:
  "direction_of (Fin 0) (Fin 0) (Fin 50) = Long \<and>
   direction_of (Fin (- 0.01)) (Fin (- 0.02)) (Fin 40) = Short \<and>
   direction_of (Fin 0.01) (Fin (- 0.02)) (Fin 50) = Long \<and>
   direction_of (Fin (- 0.02)) (Fin 0.01) (Fin 50) = Short"
  using direction_of_rule [of 0 0 50] direction_of_rule [of "- 0.01" "- 0.02" 40]
    direction_of_rule [of "0.01" "- 0.02" 50] direction_of_rule [of "- 0.02" "0.01" 50]
  by simp

text \<open>
  Claim C9. For either direction and every finite volatility (so for every volatility that
  is not negative) the stop multiplier is a finite number \<open>m\<close> whose distance from 1 is
  \<open>max (volatility / 150) 0.012\<close> capped at 0.014; the distance lies between 0.012 and 0.014,
  the multiplier between 0.986 and 0.988 for Long and between 1.012 and 1.014 for Short.
\<close>

theorem stopMultiplier_distance:
  "\<exists>m. stopMultiplier dir (Fin v) = Fin m \<and>
     \<bar>1 - m\<bar> = min (max (v / 150) 0.012) 0.014 \<and>
     0.012 \<le> \<bar>1 - m\<bar> \<and> \<bar>1 - m\<bar> \<le> 0.014 \<and>
     (dir = Long \<longrightarrow> 0.986 \<le> m \<and> m \<le> 0.988) \<and>
     (dir = Short \<longrightarrow> 1.012 \<le> m \<and> m \<le> 1.014)"
proof (cases dir)
  case Long
  have "stopMultiplier Long (Fin v) = Fin (max 0.986 (1 - max (v / 150) 0.012))"
    by (simp add: stopMultiplier_def)
  then show ?thesis
    using Long by (auto simp: min_def max_def)
next
  case Short
  have "stopMultiplier Short (Fin v) = Fin (min 1.014 (1 + max (v / 150) 0.012))"
    by (simp add: stopMultiplier_def)
  then show ?thesis
    using Short by (auto simp: min_def max_def)
qed

theorem stopMultiplier_distance_witness:
  "stopMultiplier Long (Fin 3) = Fin 0.986 \<and> stopMultiplier Short (Fin 1.95) = Fin 1.013 \<and>
   stopMultiplier Long (Fin 0) = Fin 0.988"
  using stopMultiplier_distance [of Long 3] stopMultiplier_distance [of Short "1.95"]
    stopMultiplier_distance [of Long 0]
  by (simp add: stopMultiplier_def)

section \<open>Sorting with a comparator\<close>

lemma isFinite_num: "isFinite x \<Longrightarrow> x = Fin (num x)"
  by (cases x) simp_all

lemma insert_sorted_insort_key:
  assumes "\<forall>y\<in>set ys. (cmp x y > Fin 0) = (\<not> key x \<le> key y)"
  shows "insert_sorted cmp x ys = insort_key key x ys"
  using assms by (induction ys) auto

lemma Array_sort_sort_key:
  fixes key :: "'a \<Rightarrow> real"
  assumes "\<forall>x\<in>set xs. \<forall>y\<in>set xs. (cmp x y > Fin 0) = (\<not> key x \<le> key y)"
  shows "Array_sort cmp xs = sort_key key xs"
  using assms
proof (induction xs)
  case Nil
  then show ?case by (simp add: Array_sort_def)
next
  case (Cons x xs)
  have ih: "Array_sort cmp xs = sort_key key xs"
    using Cons by simp
  have "insert_sorted cmp x (sort_key key xs) = insort_key key x (sort_key key xs)"
    using Cons.prems by (intro insert_sorted_insort_key) simp
  then show ?case
    using ih by (simp add: Array_sort_def)
qed

section \<open>The open-interest delta\<close>

lemma sort_by_timestamp:
  assumes "\<forall>p\<in>set ps. isFinite (timestamp p)"
  shows "Array_sort (\<lambda>a b. timestamp a - timestamp b) ps = sort_key (\<lambda>p. num (timestamp p)) ps"
proof (rule Array_sort_sort_key, intro ballI)
  fix x y
  assume "x \<in> set ps" "y \<in> set ps"
  then have "timestamp x = Fin (num (timestamp x))" "timestamp y = Fin (num (timestamp y))"
    using assms by (simp_all add: isFinite_num)
  then obtain a b where ab: "timestamp x = Fin a" "timestamp y = Fin b"
    by blast
  show "(Fin 0 < timestamp x - timestamp y) = (\<not> num (timestamp x) \<le> num (timestamp y))"
    by (auto simp: ab)
qed

lemma sort_key_permutation:
  fixes f :: "'a \<Rightarrow> real"
  assumes "mset xs = mset ys" "inj_on f (set xs)"
  shows "sort_key f xs = sort_key f ys"
proof (rule sort_key_inj_key_eq)
  show "mset xs = mset (sort_key f ys)" using assms(1) by simp
  show "inj_on f (set xs)" by (rule assms(2))
  show "sorted (map f (sort_key f ys))" by simp
qed

lemma timestamps_inj:
  assumes "distinct (map timestamp ps)" "\<forall>p\<in>set ps. isFinite (timestamp p)"
  shows "inj_on (\<lambda>p. num (timestamp p)) (set ps)"
proof (rule inj_onI)
  fix x y
  assume xy: "x \<in> set ps" "y \<in> set ps" and eq: "num (timestamp x) = num (timestamp y)"
  have "timestamp x = Fin (num (timestamp x))" "timestamp y = Fin (num (timestamp y))"
    using xy assms(2) by (simp_all add: isFinite_num)
  then have "timestamp x = timestamp y"
    using eq by simp
  moreover have "inj_on timestamp (set ps)"
    using assms(1) by (simp add: distinct_map)
  ultimately show "x = y"
    using xy by (simp add: inj_on_def)
qed

text \<open>
  Claim C7. \<open>calculateOpenInterestDelta\<close> returns 0 on fewer than two points. On two or
  more points with finite timestamps it reads the last two points of the list sorted
  ascending by timestamp: it returns 0 when the open interest of the second-latest is 0,
  and otherwise \<open>((latest - prev) / prev) * 100\<close>, which for finite values is
  \<open>100 * (latest - prev) / prev\<close>. So on points with pairwise distinct finite timestamps
  the result is the same for every permutation of the list.
\<close>

theorem calculateOpenInterestDelta_order:
  "(length ps < 2 \<longrightarrow> calculateOpenInterestDelta ps = Fin 0) \<and>
   (2 \<le> length ps \<and> (\<forall>p\<in>set ps. isFinite (timestamp p)) \<longrightarrow>
      (let sorted = sort_key (\<lambda>p. num (timestamp p)) ps;
           latest = sumOpenInterest (last sorted);
           prev = sumOpenInterest (sorted ! (length ps - 2))
       in (prev = Fin 0 \<longrightarrow> calculateOpenInterestDelta ps = Fin 0) \<and>
          (prev \<noteq> Fin 0 \<longrightarrow>
             calculateOpenInterestDelta ps = ((latest - prev) / prev) * Fin 100) \<and>
          (\<forall>l q. latest = Fin l \<and> prev = Fin q \<and> q \<noteq> 0 \<longrightarrow>
             calculateOpenInterestDelta ps = Fin (100 * (l - q) / q)))) \<and>
   (mset ps = mset qs \<and> distinct (map timestamp ps) \<and> (\<forall>p\<in>set ps. isFinite (timestamp p)) \<longrightarrow>
      calculateOpenInterestDelta ps = calculateOpenInterestDelta qs)"
proof (intro conjI impI)
  assume "length ps < 2"
  then show "calculateOpenInterestDelta ps = Fin 0"
    by (simp add: calculateOpenInterestDelta_def)
next
  assume h: "2 \<le> length ps \<and> (\<forall>p\<in>set ps. isFinite (timestamp p))"
  let ?s = "sort_key (\<lambda>p. num (timestamp p)) ps"
  have s: "Array_sort (\<lambda>a b. timestamp a - timestamp b) ps = ?s"
    using h by (simp add: sort_by_timestamp)
  have ne: "?s \<noteq> []" using h by (auto simp flip: length_0_conv)
  have la: "?s ! (length ps - Suc 0) = last ?s"
    using ne by (simp add: last_conv_nth)
  have c: "calculateOpenInterestDelta ps =
      (if strict_eq (sumOpenInterest (?s ! (length ps - 2))) (Fin 0) then Fin 0
       else ((sumOpenInterest (last ?s) - sumOpenInterest (?s ! (length ps - 2))) /
             sumOpenInterest (?s ! (length ps - 2))) * Fin 100)"
    using h by (simp add: calculateOpenInterestDelta_def s Let_def la)
  show "let sorted = ?s;
           latest = sumOpenInterest (last sorted);
           prev = sumOpenInterest (sorted ! (length ps - 2))
       in (prev = Fin 0 \<longrightarrow> calculateOpenInterestDelta ps = Fin 0) \<and>
          (prev \<noteq> Fin 0 \<longrightarrow>
             calculateOpenInterestDelta ps = ((latest - prev) / prev) * Fin 100) \<and>
          (\<forall>l q. latest = Fin l \<and> prev = Fin q \<and> q \<noteq> 0 \<longrightarrow>
             calculateOpenInterestDelta ps = Fin (100 * (l - q) / q))"
    unfolding Let_def c by (auto simp: strict_eq_def field_simps)
next
  assume h: "mset ps = mset qs \<and> distinct (map timestamp ps) \<and>
    (\<forall>p\<in>set ps. isFinite (timestamp p))"
  then have set_eq: "set ps = set qs"
    by (metis set_mset_mset)
  have len: "length ps = length qs"
    using h by (metis size_mset)
  have "sort_key (\<lambda>p. num (timestamp p)) ps = sort_key (\<lambda>p. num (timestamp p)) qs"
    using h by (intro sort_key_permutation timestamps_inj) simp_all
  moreover have "Array_sort (\<lambda>a b. timestamp a - timestamp b) ps =
      sort_key (\<lambda>p. num (timestamp p)) ps"
    using h by (simp add: sort_by_timestamp)
  moreover have "Array_sort (\<lambda>a b. timestamp a - timestamp b) qs =
      sort_key (\<lambda>p. num (timestamp p)) qs"
    using h set_eq by (simp add: sort_by_timestamp)
  ultimately show "calculateOpenInterestDelta ps = calculateOpenInterestDelta qs"
    by (simp add: calculateOpenInterestDelta_def len)
qed

theorem calculateOpenInterestDelta_order_witness:
  "calculateOpenInterestDelta
     [\<lparr>OpenInterestPoint.symbol = ''BTCUSDT'', sumOpenInterest = Fin 110,
        sumOpenInterestValue = Fin 1100, timestamp = Fin 3\<rparr>] = Fin 0 \<and>
   calculateOpenInterestDelta
     [\<lparr>OpenInterestPoint.symbol = ''BTCUSDT'', sumOpenInterest = Fin 110,
        sumOpenInterestValue = Fin 1100, timestamp = Fin 3\<rparr>,
      \<lparr>OpenInterestPoint.symbol = ''BTCUSDT'', sumOpenInterest = Fin 90,
        sumOpenInterestValue = Fin 900, timestamp = Fin 1\<rparr>,
      \<lparr>OpenInterestPoint.symbol = ''BTCUSDT'', sumOpenInterest = Fin 100,
        sumOpenInterestValue = Fin 1000, timestamp = Fin 2\<rparr>] = Fin 10 \<and>
   calculateOpenInterestDelta
     [\<lparr>OpenInterestPoint.symbol = ''BTCUSDT'', sumOpenInterest = Fin 110,
        sumOpenInterestValue = Fin 1100, timestamp = Fin 3\<rparr>,
      \<lparr>OpenInterestPoint.symbol = ''BTCUSDT'', sumOpenInterest = Fin 90,
        sumOpenInterestValue = Fin 900, timestamp = Fin 1\<rparr>,
      \<lparr>OpenInterestPoint.symbol = ''BTCUSDT'', sumOpenInterest = Fin 100,
        sumOpenInterestValue = Fin 1000, timestamp = Fin 2\<rparr>] =
   calculateOpenInterestDelta
     [\<lparr>OpenInterestPoint.symbol = ''BTCUSDT'', sumOpenInterest = Fin 90,
        sumOpenInterestValue = Fin 900, timestamp = Fin 1\<rparr>,
      \<lparr>OpenInterestPoint.symbol = ''BTCUSDT'', sumOpenInterest = Fin 100,
        sumOpenInterestValue = Fin 1000, timestamp = Fin 2\<rparr>,
      \<lparr>OpenInterestPoint.symbol = ''BTCUSDT'', sumOpenInterest = Fin 110,
        sumOpenInterestValue = Fin 1100, timestamp = Fin 3\<rparr>]"
proof -
  let ?p1 = "\<lparr>OpenInterestPoint.symbol = ''BTCUSDT'', sumOpenInterest = Fin 90,
        sumOpenInterestValue = Fin 900, timestamp = Fin 1\<rparr>"
  let ?p2 = "\<lparr>OpenInterestPoint.symbol = ''BTCUSDT'', sumOpenInterest = Fin 100,
        sumOpenInterestValue = Fin 1000, timestamp = Fin 2\<rparr>"
  let ?p3 = "\<lparr>OpenInterestPoint.symbol = ''BTCUSDT'', sumOpenInterest = Fin 110,
        sumOpenInterestValue = Fin 1100, timestamp = Fin 3\<rparr>"
  have m: "mset [?p3, ?p1, ?p2] = mset [?p1, ?p2, ?p3]"
    by simp
  have a: "calculateOpenInterestDelta [?p3] = Fin 0"
    using calculateOpenInterestDelta_order [of "[?p3]" "[?p3]"] by simp
  have b: "calculateOpenInterestDelta [?p3, ?p1, ?p2] = Fin 10"
    using calculateOpenInterestDelta_order [of "[?p3, ?p1, ?p2]" "[?p1, ?p2, ?p3]"]
    by (simp add: Let_def)
  have c: "calculateOpenInterestDelta [?p3, ?p1, ?p2] =
      calculateOpenInterestDelta [?p1, ?p2, ?p3]"
    using m calculateOpenInterestDelta_order [of "[?p3, ?p1, ?p2]" "[?p1, ?p2, ?p3]"]
    by auto
  show ?thesis
    by (rule conjI [OF a conjI [OF b c]])
qed

section \<open>The relative-strength index\<close>



lemma not_negative_plus: "not_negative x \<Longrightarrow> not_negative y \<Longrightarrow> not_negative (x + y)"
  by (cases x; cases y) simp_all



lemma not_negative_divide_Fin: "not_negative x \<Longrightarrow> 0 \<le> c \<Longrightarrow> not_negative (x / Fin c)"
  by (cases x) simp_all

lemma not_negative_square: "not_negative (x * x)"
  by (cases x) (simp_all add: Let_def)

lemma not_negative_sqrt: "not_negative x \<Longrightarrow> not_negative (Math_sqrt x)"
  by (cases x) simp_all

lemma not_negative_cases:
  "not_negative x = (x = NaN \<or> x = PInf \<or> (\<exists>r. x = Fin r \<and> 0 \<le> r))"
  by (cases x) simp_all











section \<open>Standard deviation and volatility\<close>

lemma fold_plus_Fin:
  "fold (\<lambda>val acc. acc + val) (map Fin vs) (Fin a) = Fin (a + sum_list vs)"
  by (induction vs arbitrary: a) (simp_all add: add.assoc)

lemma sum_values_Fin: "sum_values (map Fin vs) = Fin (sum_list vs)"
  by (simp add: sum_values_def fold_plus_Fin)

lemma fold_squares_Fin:
  "fold (\<lambda>val acc. acc + (val - Fin m) * (val - Fin m)) (map Fin vs) (Fin a) =
   Fin (a + (\<Sum>v\<leftarrow>vs. (v - m) * (v - m)))"
  by (induction vs arbitrary: a) (simp_all add: add.assoc)

lemma fold_squares_not_negative:
  "not_negative acc \<Longrightarrow>
   not_negative (fold (\<lambda>val acc. acc + (val - m) * (val - m)) values acc)"
  by (induction "values" arbitrary: acc) (simp_all add: not_negative_plus not_negative_square)

lemma standardDeviation_not_negative: "not_negative (standardDeviation values)"
proof -
  have "not_negative (fold (\<lambda>val acc. acc + (val - m) * (val - m)) values (Fin 0))" for m
    by (rule fold_squares_not_negative) simp
  then have "not_negative
      (fold (\<lambda>val acc. acc + (val - m) * (val - m)) values (Fin 0) / len values)" for m
    unfolding len_def by (rule not_negative_divide_Fin) simp
  then show ?thesis
    by (simp add: standardDeviation_def Let_def not_negative_sqrt)
qed

lemma standardDeviation_Fin:
  assumes "vs \<noteq> []"
  shows "standardDeviation (map Fin vs) =
    Fin (sqrt ((\<Sum>v\<leftarrow>vs. (v - sum_list vs / real (length vs)) *
                        (v - sum_list vs / real (length vs))) / real (length vs)))"
proof -
  have n: "real (length vs) \<noteq> 0" using assms by simp
  have m: "sum_values (map Fin vs) / len (map Fin vs) = Fin (sum_list vs / real (length vs))"
    using n by (simp add: sum_values_Fin len_def)
  have sq: "0 \<le> (\<Sum>v\<leftarrow>vs. (v - m) * (v - m))" for m :: real
    by (rule sum_list_nonneg) auto
  have "\<not> (\<Sum>v\<leftarrow>vs. (v - m) * (v - m)) / real (length vs) < 0" for m :: real
    using sq [of m] by (simp add: not_less)
  then show ?thesis
    unfolding standardDeviation_def Let_def m
    using n by (simp add: fold_squares_Fin len_def)
qed

lemma standardDeviation_empty: "standardDeviation [] = NaN"
  by (simp add: standardDeviation_def sum_values_def len_def Let_def)

lemma length_returns: "length (returns prices) = length prices - 1"
  by (simp add: returns_def)

text \<open>
  Claim C10, as the code has it. \<open>standardDeviation\<close> never returns a negative number:
  on every list its result is \<open>NaN\<close>, \<open>Infinity\<close> or a finite number that is not
  negative, and on a non-empty list of finite values it is not \<open>NaN\<close>. On the empty list
  the mean is \<open>0 / 0\<close> and the result is \<open>NaN\<close>, which is not finite.
  \<open>volatilityPercent\<close> returns 0 on fewer than two closes without calling
  \<open>standardDeviation\<close>, and on two or more closes it calls it on the list of returns,
  which is then not empty.
\<close>

theorem standardDeviation_guard:
  "(standardDeviation values = NaN \<or> standardDeviation values = PInf \<or>
      (\<exists>r. standardDeviation values = Fin r \<and> 0 \<le> r)) \<and>
   (vs \<noteq> [] \<longrightarrow> standardDeviation (map Fin vs) \<noteq> NaN) \<and>
   standardDeviation [] = NaN \<and> \<not> isFinite (standardDeviation []) \<and>
   (length prices < 2 \<longrightarrow> volatilityPercent prices = Fin 0) \<and>
   (\<not> length prices < 2 \<longrightarrow> returns prices \<noteq> [] \<and>
      volatilityPercent prices =
        standardDeviation (returns prices) * Math_sqrt (len (returns prices)) * Fin 100)"
proof (intro conjI impI)
  show "standardDeviation values = NaN \<or> standardDeviation values = PInf \<or>
      (\<exists>r. standardDeviation values = Fin r \<and> 0 \<le> r)"
    using standardDeviation_not_negative [of "values"] by (simp add: not_negative_cases)
next
  assume "vs \<noteq> []"
  then show "standardDeviation (map Fin vs) \<noteq> NaN"
    by (simp add: standardDeviation_Fin)
next
  show "standardDeviation [] = NaN"
    by (rule standardDeviation_empty)
  show "\<not> isFinite (standardDeviation [])"
    by (simp add: standardDeviation_empty)
next
  assume "length prices < 2"
  then show "volatilityPercent prices = Fin 0"
    by (simp add: volatilityPercent_def)
next
  assume h: "\<not> length prices < 2"
  then have "length (returns prices) \<noteq> 0"
    by (simp add: length_returns)
  then show "returns prices \<noteq> []"
    by simp
  show "volatilityPercent prices =
        standardDeviation (returns prices) * Math_sqrt (len (returns prices)) * Fin 100"
    using h by (simp add: volatilityPercent_def)
qed

theorem standardDeviation_guard_witness:
  "standardDeviation (map Fin [0, 10]) \<noteq> NaN \<and>
   (standardDeviation [Fin 2, NInf] = NaN \<or> standardDeviation [Fin 2, NInf] = PInf \<or>
      (\<exists>r. standardDeviation [Fin 2, NInf] = Fin r \<and> 0 \<le> r)) \<and>
   volatilityPercent [Fin 7] = Fin 0 \<and>
   returns [Fin 1, Fin 2] \<noteq> []"
  using standardDeviation_guard [of "[Fin 2, NInf]" "[0, 10]" "[Fin 7]"]
    standardDeviation_guard [of "[Fin 2, NInf]" "[0, 10]" "[Fin 1, Fin 2]"]
  by simp

text \<open>The same guard lets a list through that is not empty and not finite: a close of 0
  makes the first return \<open>1 / 0\<close>, and \<open>standardDeviation\<close> of that list is \<open>NaN\<close>.\<close>

theorem standardDeviation_infinite_counterexample:
  "returns [Fin 0, Fin 1] = [PInf] \<and>
   standardDeviation [PInf] = NaN \<and>
   \<not> isFinite (standardDeviation (returns [Fin 0, Fin 1])) \<and>
   volatilityPercent [Fin 0, Fin 1] = NaN"
  by (simp add: returns_def elemAt_def standardDeviation_def sum_values_def len_def Let_def
      volatilityPercent_def minus_jsnum_def)

section \<open>The indicators on a flat series\<close>


lemma slice_from_all: "int (length xs) \<le> n \<Longrightarrow> slice_from xs (- n) = xs"
  by (simp add: slice_from_def rel_index_def)















section \<open>The ranking funnel\<close>

lemma evaluation_score: "isFinite (compositeScore (evaluation ticker ks1h ks4h ks15m prem hist))"
  by (simp add: evaluation_def Let_def buildCompositeScore_isFinite)

lemma evaluateFetched_score:
  "evaluateFetched ticker b1h b4h b15m bprem hist = Inr (Some e) \<Longrightarrow>
   isFinite (compositeScore e)"
  by (auto simp: evaluateFetched_def evaluation_score split: option.splits if_splits)

lemma evaluateOrNull_score:
  "evaluateOrNull market ticker = Some e \<Longrightarrow> isFinite (compositeScore e)"
  by (auto simp: evaluateOrNull_def evaluateSymbol_def dest: evaluateFetched_score
      split: sum.splits)

lemma slice_take: "slice xs 0 (int n) = take n xs"
  by (simp add: slice_def rel_index_def Let_def min_def)

lemma rank_sort_key:
  assumes "\<forall>e. Some e \<in> set results \<longrightarrow> isFinite (compositeScore e)"
  shows "rank results =
    sort_key (\<lambda>e. - num (compositeScore e))
      (filter (\<lambda>item. compositeScore item \<ge> Fin 55)
         (map the (filter (\<lambda>item. item \<noteq> None) results)))"
  unfolding rank_def
proof (rule Array_sort_sort_key, intro ballI)
  fix x y
  assume "x \<in> set (filter (\<lambda>item. compositeScore item \<ge> Fin 55)
         (map the (filter (\<lambda>item. item \<noteq> None) results)))"
    and "y \<in> set (filter (\<lambda>item. compositeScore item \<ge> Fin 55)
         (map the (filter (\<lambda>item. item \<noteq> None) results)))"
  then have "Some x \<in> set results" "Some y \<in> set results"
    by auto
  then have "compositeScore x = Fin (num (compositeScore x))"
    "compositeScore y = Fin (num (compositeScore y))"
    using assms by (simp_all add: isFinite_num)
  then obtain a b where ab: "compositeScore x = Fin a" "compositeScore y = Fin b"
    by blast
  show "(Fin 0 < compositeScore y - compositeScore x) =
      (\<not> - num (compositeScore x) \<le> - num (compositeScore y))"
    by (auto simp: ab)
qed

lemma descending_by_key:
  assumes "\<forall>e\<in>set xs. isFinite (compositeScore e)"
    and "sorted (map (\<lambda>e. - num (compositeScore e)) xs)"
  shows "sorted_wrt (\<lambda>a b. compositeScore a \<ge> compositeScore b) xs"
proof -
  have "sorted_wrt (\<lambda>a b. - num (compositeScore a) \<le> - num (compositeScore b)) xs"
    using assms(2) by (simp add: sorted_map)
  moreover have "compositeScore a \<ge> compositeScore b"
    if "a \<in> set xs" "b \<in> set xs" "- num (compositeScore a) \<le> - num (compositeScore b)"
    for a b
  proof -
    have "compositeScore a = Fin (num (compositeScore a))"
      "compositeScore b = Fin (num (compositeScore b))"
      using that assms(1) by (simp_all add: isFinite_num)
    then obtain u v where uv: "compositeScore a = Fin u" "compositeScore b = Fin v"
      by blast
    show ?thesis
      using that(3) by (simp add: uv)
  qed
  ultimately show ?thesis
    by (rule sorted_wrt_mono_rel [rotated]) 
qed

lemma stable_by_key:
  assumes "\<forall>e\<in>set xs. isFinite (compositeScore e)"
  shows "filter (\<lambda>e. compositeScore e = k) (sort_key (\<lambda>e. - num (compositeScore e)) xs) =
    filter (\<lambda>e. compositeScore e = k) xs"
proof -
  have eq: "filter (\<lambda>e. compositeScore e = k) ys =
      filter (\<lambda>e. isFinite k \<and> - num (compositeScore e) = - num k) ys"
    if "set ys = set xs" for ys
  proof (rule filter_cong [OF refl])
    fix e
    assume "e \<in> set ys"
    then have "compositeScore e = Fin (num (compositeScore e))"
      using that assms by (simp add: isFinite_num)
    then obtain u where u: "compositeScore e = Fin u"
      by blast
    show "(compositeScore e = k) = (isFinite k \<and> - num (compositeScore e) = - num k)"
      by (cases k) (auto simp: u)
  qed
  show ?thesis
  proof (cases "isFinite k")
    case True
    have "filter (\<lambda>e. - num (compositeScore e) = - num k)
        (sort_key (\<lambda>e. - num (compositeScore e)) xs) =
      filter (\<lambda>e. - num (compositeScore e) = - num k) xs"
      by (rule sort_key_stable)
    then show ?thesis
      using True eq [of xs] eq [of "sort_key (\<lambda>e. - num (compositeScore e)) xs"]
      by simp
  next
    case False
    then show ?thesis
      using eq [of xs] eq [of "sort_key (\<lambda>e. - num (compositeScore e)) xs"]
      by simp
  qed
qed

text \<open>
  Claim C3. For the results of the evaluations of one scan (an evaluation or \<open>null\<close>
  each, every score finite, as the scores of a scan are): \<open>rank\<close> keeps exactly the
  evaluations with a composite score of at least 55, in descending order of score, and
  evaluations of equal score keep the order of the results. The movers of the response
  are the first 5 and the strongest the first 3 of the ranked list, so they have at most
  5 and 3 elements, every score in them is at least 55, and the strongest are the first 3
  of the movers. When nothing is kept the response is the no-trade message with both
  views empty, and the response is never the failure of the scan.
\<close>

theorem ranking_funnel:
  "(\<forall>e. Some e \<in> set results \<longrightarrow> isFinite (compositeScore e)) \<longrightarrow>
   (let kept = filter (\<lambda>item. compositeScore item \<ge> Fin 55)
                 (map the (filter (\<lambda>item. item \<noteq> None) results));
        ranked = rank results;
        response = respond now ranked
    in mset ranked = mset kept \<and>
       set ranked = {e. Some e \<in> set results \<and> compositeScore e \<ge> Fin 55} \<and>
       sorted_wrt (\<lambda>a b. compositeScore a \<ge> compositeScore b) ranked \<and>
       (\<forall>k. filter (\<lambda>e. compositeScore e = k) ranked =
            filter (\<lambda>e. compositeScore e = k) kept) \<and>
       movers response = Some (take 5 ranked) \<and>
       strongest response = Some (take 3 ranked) \<and>
       length (take 5 ranked) \<le> 5 \<and> length (take 3 ranked) \<le> 3 \<and>
       (\<forall>e\<in>set (take 5 ranked) \<union> set (take 3 ranked). compositeScore e \<ge> Fin 55) \<and>
       take 3 (take 5 ranked) = take 3 ranked \<and>
       (kept = [] \<longrightarrow> response = NoTrade now [] [] ''NO SAFE FUTURES TRADE RIGHT NOW.'') \<and>
       (\<forall>msg code. response \<noteq> ScanFailed msg code)) \<and>
   (\<forall>e. Some e \<in> set (map (\<lambda>(ticker, preScore). evaluateOrNull market ticker) preScored) \<longrightarrow>
      isFinite (compositeScore e)) \<and>
   scanShortlist market now preScored =
     respond now (rank (map (\<lambda>(ticker, preScore). evaluateOrNull market ticker) preScored))"
proof (intro conjI impI allI)
  assume fin: "\<forall>e. Some e \<in> set results \<longrightarrow> isFinite (compositeScore e)"
  let ?kept = "filter (\<lambda>item. compositeScore item \<ge> Fin 55)
                 (map the (filter (\<lambda>item. item \<noteq> None) results))"
  have r: "rank results = sort_key (\<lambda>e. - num (compositeScore e)) ?kept"
    using fin by (rule rank_sort_key)
  have kept_set: "set ?kept = {e. Some e \<in> set results \<and> compositeScore e \<ge> Fin 55}"
    by force
  have kept_fin: "\<forall>e\<in>set ?kept. isFinite (compositeScore e)"
    using fin kept_set by blast
  have m: "mset (rank results) = mset ?kept"
    by (simp add: r)
  have s: "set (rank results) = {e. Some e \<in> set results \<and> compositeScore e \<ge> Fin 55}"
    using kept_set by (simp add: r)
  have d: "sorted_wrt (\<lambda>a b. compositeScore a \<ge> compositeScore b) (rank results)"
    unfolding r using kept_fin by (intro descending_by_key) simp_all
  have st: "filter (\<lambda>e. compositeScore e = k) (rank results) =
      filter (\<lambda>e. compositeScore e = k) ?kept" for k
    unfolding r using kept_fin by (rule stable_by_key)
  have mv: "movers (respond now (rank results)) = Some (take 5 (rank results))"
    using slice_take [of "rank results" 5] by (simp add: respond_def)
  have sg: "strongest (respond now (rank results)) = Some (take 3 (rank results))"
    using slice_take [of "rank results" 3] by (simp add: respond_def)
  have sc: "\<forall>e\<in>set (take 5 (rank results)) \<union> set (take 3 (rank results)).
      compositeScore e \<ge> Fin 55"
    using s by (auto dest: in_set_takeD)
  have em: "?kept = [] \<longrightarrow>
      respond now (rank results) = NoTrade now [] [] ''NO SAFE FUTURES TRADE RIGHT NOW.''"
    by (simp add: r respond_def)
  have nf: "\<forall>msg code. respond now (rank results) \<noteq> ScanFailed msg code"
    by (simp add: respond_def)
  show "let kept = ?kept; ranked = rank results; response = respond now ranked
    in mset ranked = mset kept \<and>
       set ranked = {e. Some e \<in> set results \<and> compositeScore e \<ge> Fin 55} \<and>
       sorted_wrt (\<lambda>a b. compositeScore a \<ge> compositeScore b) ranked \<and>
       (\<forall>k. filter (\<lambda>e. compositeScore e = k) ranked =
            filter (\<lambda>e. compositeScore e = k) kept) \<and>
       movers response = Some (take 5 ranked) \<and>
       strongest response = Some (take 3 ranked) \<and>
       length (take 5 ranked) \<le> 5 \<and> length (take 3 ranked) \<le> 3 \<and>
       (\<forall>e\<in>set (take 5 ranked) \<union> set (take 3 ranked). compositeScore e \<ge> Fin 55) \<and>
       take 3 (take 5 ranked) = take 3 ranked \<and>
       (kept = [] \<longrightarrow> response = NoTrade now [] [] ''NO SAFE FUTURES TRADE RIGHT NOW.'') \<and>
       (\<forall>msg code. response \<noteq> ScanFailed msg code)"
    unfolding Let_def
    using m s d st mv sg sc em nf by (intro conjI allI) simp_all
next
  fix e
  assume "Some e \<in> set (map (\<lambda>(ticker, preScore). evaluateOrNull market ticker) preScored)"
  then obtain t where "evaluateOrNull market t = Some e"
    by auto
  then show "isFinite (compositeScore e)"
    by (rule evaluateOrNull_score)
next
  show "scanShortlist market now preScored =
     respond now (rank (map (\<lambda>(ticker, preScore). evaluateOrNull market ticker) preScored))"
    by (simp add: scanShortlist_def)
qed

theorem ranking_funnel_witness:
  "rank [Some (sample_evaluation ''AUSDT'' 60), None, Some (sample_evaluation ''BUSDT'' 80),
         Some (sample_evaluation ''CUSDT'' 40), Some (sample_evaluation ''DUSDT'' 60)] =
     [sample_evaluation ''BUSDT'' 80, sample_evaluation ''AUSDT'' 60,
      sample_evaluation ''DUSDT'' 60] \<and>
   movers (respond (Fin 1000)
     (rank [Some (sample_evaluation ''AUSDT'' 60), None, Some (sample_evaluation ''BUSDT'' 80),
         Some (sample_evaluation ''CUSDT'' 40), Some (sample_evaluation ''DUSDT'' 60)])) =
     Some [sample_evaluation ''BUSDT'' 80, sample_evaluation ''AUSDT'' 60,
      sample_evaluation ''DUSDT'' 60] \<and>
   strongest (respond (Fin 1000)
     (rank [Some (sample_evaluation ''AUSDT'' 60), None, Some (sample_evaluation ''BUSDT'' 80),
         Some (sample_evaluation ''CUSDT'' 40), Some (sample_evaluation ''DUSDT'' 60)])) =
     Some [sample_evaluation ''BUSDT'' 80, sample_evaluation ''AUSDT'' 60,
      sample_evaluation ''DUSDT'' 60]"
proof -
  let ?rs = "[Some (sample_evaluation ''AUSDT'' 60), None, Some (sample_evaluation ''BUSDT'' 80),
         Some (sample_evaluation ''CUSDT'' 40), Some (sample_evaluation ''DUSDT'' 60)]"
  have sc [simp]: "compositeScore (sample_evaluation name score) = Fin score" for name score
    by (simp add: sample_evaluation_def)
  have fin: "\<forall>e. Some e \<in> set ?rs \<longrightarrow> isFinite (compositeScore e)"
    by auto
  have r: "rank ?rs = [sample_evaluation ''BUSDT'' 80, sample_evaluation ''AUSDT'' 60,
      sample_evaluation ''DUSDT'' 60]"
    by (simp add: rank_def Array_sort_def)
  have "movers (respond (Fin 1000) (rank ?rs)) = Some (take 5 (rank ?rs)) \<and>
      strongest (respond (Fin 1000) (rank ?rs)) = Some (take 3 (rank ?rs))"
    using fin ranking_funnel [of ?rs "Fin 1000" sample_market "[]"]
    unfolding Let_def by blast
  then show ?thesis
    unfolding r by simp
qed

section \<open>Per-symbol failures\<close>

lemma request_failed_simps [simp]:
  "request_failed (Inl e) = True" "request_failed (Inr x) = False"
  by (simp_all add: request_failed_def)

lemma null_body_simps [simp]:
  "null_body (Inl e) = False" "null_body (Inr None) = True" "null_body (Inr (Some x)) = False"
  by (simp_all add: null_body_def)

lemma too_short_simps [simp]:
  "too_short (Inl e) = False" "too_short (Inr None) = False"
  "too_short (Inr (Some ks)) = (length ks < 30)"
  by (simp_all add: too_short_def)












end
